theory Spec2Isabelle
  imports Complex_Main "HOL-Library.Sublist" "HOL-Library.Word" "HOL-Library.Code_Target_Nat"
begin

section \<open>Values shared by both scripts\<close>

text \<open>
  A Python \<open>str\<close> is a sequence of Unicode code points and is modelled as a list of
  naturals. Text that can only hold code points below 256 (ASCII literals of the source,
  HTTP header values, which the standard library decodes as Latin-1) is an Isabelle
  \<open>string\<close>; \<open>latin1\<close> reads such a string as a Python \<open>str\<close>. A \<open>bytes\<close> object is a
  list of 8-bit words.
\<close>

type_synonym ustr = "nat list"
type_synonym bytes = "8 word list"
type_synonym path = string

definition latin1 :: "string \<Rightarrow> ustr" where
  "latin1 s = map of_char s"

text \<open>
  Python values that cross an interface of the scripts: the keyword arguments handed to
  the inference library and the dictionaries serialised by \<open>json.dumps\<close>. A \<open>dict\<close>
  literal is an association list in source order. Floats are only passed through; the
  one float literal of the source, \<open>0.6\<close>, is the rational it denotes.
\<close>

datatype pyval =
    PyBool bool
  | PyInt int
  | PyFloat rat
  | PyStr ustr
  | PyDict "(string \<times> pyval) list"

type_synonym pydict = "(string \<times> pyval) list"

text \<open>
  An exception is its class name and the text \<open>str(e)\<close> renders. Only subclasses of
  \<open>Exception\<close> are modelled (what \<open>except Exception\<close> catches).
\<close>

datatype exn = Exception (exc_class: string) (str_exn: ustr)

abbreviation ValueError :: "ustr \<Rightarrow> exn" where
  "ValueError msg \<equiv> Exception ''ValueError'' msg"

subsection \<open>Builtins of the interpreter the scripts call\<close>

text \<open>\<open>str.strip()\<close> with no argument removes leading and trailing characters for which
  \<open>str.isspace\<close> holds.\<close>

definition py_isspace :: "nat \<Rightarrow> bool" where
  "py_isspace c \<longleftrightarrow>
     (9 \<le> c \<and> c \<le> 13) \<or> (28 \<le> c \<and> c \<le> 32) \<or> c = 0x85 \<or> c = 0xA0 \<or> c = 0x1680 \<or>
     (0x2000 \<le> c \<and> c \<le> 0x200A) \<or> c = 0x2028 \<or> c = 0x2029 \<or> c = 0x202F \<or>
     c = 0x205F \<or> c = 0x3000"

definition strip :: "ustr \<Rightarrow> ustr" where
  "strip s = rev (dropWhile py_isspace (rev (dropWhile py_isspace s)))"

text \<open>Decimal rendering of a non-negative integer, as \<open>%d\<close> and f-strings do.\<close>

fun decimal :: "nat \<Rightarrow> string" where
  "decimal n =
     (if n < 10 then [''0123456789'' ! n]
      else decimal (n div 10) @ [''0123456789'' ! (n mod 10)])"

text \<open>\<open>repr\<close> of a \<open>str\<close> whose code points are below 256: the quote is \<open>'\<close> unless the
  text holds \<open>'\<close> and no \<open>"\<close>; the quote and the backslash are escaped; tab, newline and
  carriage return have their letter escapes; every other non-printable code point is
  \<open>\xhh\<close>.\<close>

definition repr_char :: "char \<Rightarrow> char \<Rightarrow> string" where
  "repr_char q c =
     (let n = (of_char c :: nat) in
      if c = q \<or> n = 0x5C then [CHR 0x5C, c]
      else if n = 9 then [CHR 0x5C, CHR ''t'']
      else if n = 10 then [CHR 0x5C, CHR ''n'']
      else if n = 13 then [CHR 0x5C, CHR ''r'']
      else if n < 32 \<or> n = 127 \<or> (128 \<le> n \<and> n \<le> 160) \<or> n = 173
        then [CHR 0x5C, CHR ''x'', ''0123456789abcdef'' ! (n div 16),
              ''0123456789abcdef'' ! (n mod 16)]
      else [c])"

definition py_repr :: "string \<Rightarrow> string" where
  "py_repr s =
     (let q = (if CHR 0x27 \<in> set s \<and> CHR 0x22 \<notin> set s then CHR 0x22 else CHR 0x27)
      in q # concat (map (repr_char q) s) @ [q])"

text \<open>
  \<open>int(s)\<close> for a \<open>str\<close> of code points below 256, base 10: surrounding whitespace is
  skipped (the ASCII whitespace and the two Latin-1 spaces \<open>0x85\<close> and \<open>0xA0\<close>), one sign
  is allowed, then digits with single underscores between them. The run of digits and
  underscores is scanned first: a malformed run is an invalid literal, a well-formed run
  of more than 4300 digits exceeds the interpreter's conversion limit, and only then is
  the rest of the text checked. The message of an invalid literal shows at most 200
  characters of the \<open>repr\<close>.
\<close>

definition int_space :: "char \<Rightarrow> bool" where
  "int_space c \<longleftrightarrow>
     (let n = (of_char c :: nat) in (9 \<le> n \<and> n \<le> 13) \<or> n = 32 \<or> n = 0x85 \<or> n = 0xA0)"

definition is_digit :: "char \<Rightarrow> bool" where
  "is_digit c \<longleftrightarrow> (let n = (of_char c :: nat) in 48 \<le> n \<and> n \<le> 57)"

definition digit_value :: "char \<Rightarrow> int" where
  "digit_value c = int (of_char c) - 48"

fun well_formed_run :: "string \<Rightarrow> bool" where
  "well_formed_run [] = True"
| "well_formed_run [c] = is_digit c"
| "well_formed_run (c # d # cs) =
     ((is_digit c \<or> is_digit d) \<and> well_formed_run (d # cs))"

definition invalid_literal :: "string \<Rightarrow> exn" where
  "invalid_literal s =
     ValueError (latin1 (''invalid literal for int() with base 10: '' @ take 200 (py_repr s)))"

definition digit_limit :: "nat \<Rightarrow> exn" where
  "digit_limit n =
     ValueError (latin1 (''Exceeds the limit (4300 digits) for integer string conversion: value has ''
       @ decimal n @ '' digits; use sys.set_int_max_str_digits() to increase the limit''))"

definition py_int :: "string \<Rightarrow> exn + int" where
  "py_int s =
     (let t = dropWhile int_space s;
          negative = (case t of c # _ \<Rightarrow> c = CHR ''-'' | [] \<Rightarrow> False);
          signed = (case t of c # _ \<Rightarrow> c = CHR ''-'' \<or> c = CHR ''+'' | [] \<Rightarrow> False);
          b = (if signed then tl t else t);
          run = takeWhile (\<lambda>c. is_digit c \<or> c = CHR ''_'') b;
          rest = dropWhile (\<lambda>c. is_digit c \<or> c = CHR ''_'') b;
          ds = filter is_digit run
      in if \<not> well_formed_run run \<or> (run \<noteq> [] \<and> \<not> is_digit (hd run)) then Inl (invalid_literal s)
         else if 4300 < length ds then Inl (digit_limit (length ds))
         else if run = [] \<or> dropWhile int_space rest \<noteq> [] then Inl (invalid_literal s)
         else let v = foldl (\<lambda>a c. 10 * a + digit_value c) 0 ds
              in Inr (if negative then - v else v))"


section \<open>The libraries and the operating system\<close>

text \<open>
  Everything outside the two scripts is a parameter: the process environment, whether
  \<open>torch\<close> is importable and sees a CUDA device (and the device's name), whether
  constructing \<open>WhisperModel\<close> raises, what \<open>model.transcribe\<close> does for a call on the
  files then on disk, the name \<open>NamedTemporaryFile\<close> picks, whether creating that file
  raises, whether writing it raises (and which bytes the file then holds), whether the
  interpreter can allocate a \<open>bytes\<close> object of a given size, and the frame rate the
  \<open>wave\<close> module reads from a byte string. \<open>transcribe\<close> returns its segments lazily; an
  exception raised while they are consumed is raised inside the same \<open>try\<close> block as one
  raised by the call, so both are the \<open>Inl\<close> outcome.
\<close>

record info =
  language :: ustr
  language_probability :: rat
  duration :: rat

record call =
  audio :: path
  kwargs :: pydict

datatype torch = TorchNotInstalled | TorchInstalled "ustr option"

record runtime =
  environ :: "string \<rightharpoonup> ustr"
  torch :: torch
  WhisperModel :: "ustr \<Rightarrow> ustr \<Rightarrow> ustr \<Rightarrow> exn option"
  transcribe :: "(path \<rightharpoonup> bytes) \<Rightarrow> call \<Rightarrow> exn + (ustr list \<times> info)"
  tmp_name :: path
  tmp_create_error :: "exn option"
  tmp_write_error :: "bytes \<Rightarrow> (exn \<times> bytes) option"
  can_allocate :: "int \<Rightarrow> bool"
  wave_framerate :: "bytes \<Rightarrow> exn + nat"

text \<open>
  The state of a running script: what it has written to its two output streams, its exit
  status once it has exited, the files on disk, the calls of \<open>model.transcribe\<close> made so
  far, and its module globals. \<open>model_loaded\<close> is the command-line script's
  \<open>model is not None\<close>; the last four fields belong to the server: its two resolved
  globals, and the input and output streams of the connection being handled.
\<close>

datatype written = Text ustr | JsonLine pydict | Traceback exn

datatype payload = JsonBody pydict | ErrorPage

record response =
  status :: nat
  content_type :: string
  content :: payload

record process =
  stdout :: "written list"
  stderr :: "written list"
  exit_status :: "int option"
  files :: "path \<rightharpoonup> bytes"
  calls :: "call list"
  model_loaded :: bool
  actual_device :: ustr
  actual_compute_type :: ustr
  rfile :: bytes
  wfile :: "response list"

definition boot :: "(path \<rightharpoonup> bytes) \<Rightarrow> process" where
  "boot fs = \<lparr>stdout = [], stderr = [], exit_status = None, files = fs, calls = [],
     model_loaded = False, actual_device = [], actual_compute_type = [], rfile = [],
     wfile = []\<rparr>"

definition print :: "ustr \<Rightarrow> process \<Rightarrow> process" where
  "print line s = s\<lparr>stdout := stdout s @ [Text line]\<rparr>"

definition stderr_write :: "ustr \<Rightarrow> process \<Rightarrow> process" where
  "stderr_write t s = s\<lparr>stderr := stderr s @ [Text t]\<rparr>"

text \<open>
  The block \<open>with tempfile.NamedTemporaryFile(suffix='.wav', delete=False) as tmp:\<close>
  \<open>tmp.write(data); tmp_path = tmp.name\<close>. When creating the file raises, nothing is
  on disk. When writing or closing it raises, the exception leaves the \<open>with\<close> block and
  the file, made with \<open>delete=False\<close>, stays on disk with the bytes that reached it.
  Otherwise the file holds the data and its name is returned. \<open>os.unlink\<close> removes a
  name.
\<close>

definition tmp_write :: "runtime \<Rightarrow> bytes \<Rightarrow> process \<Rightarrow> (exn + path) \<times> process" where
  "tmp_write rt d s =
     (case tmp_create_error rt of
        Some e \<Rightarrow> (Inl e, s)
      | None \<Rightarrow>
          (case tmp_write_error rt d of
             Some (e, reached) \<Rightarrow> (Inl e, s\<lparr>files := (files s)(tmp_name rt \<mapsto> reached)\<rparr>)
           | None \<Rightarrow> (Inr (tmp_name rt), s\<lparr>files := (files s)(tmp_name rt \<mapsto> d)\<rparr>)))"

definition unlink :: "path \<Rightarrow> process \<Rightarrow> process" where
  "unlink p s = s\<lparr>files := (files s)(p := None)\<rparr>"

text \<open>Calling \<open>model.transcribe\<close>: the call is recorded, the library sees the files on
  disk.\<close>

definition model_transcribe ::
  "runtime \<Rightarrow> call \<Rightarrow> process \<Rightarrow> (exn + (ustr list \<times> info)) \<times> process" where
  "model_transcribe rt c s = (transcribe rt (files s) c, s\<lparr>calls := calls s @ [c]\<rparr>)"


section \<open>The HTTP server, \<open>scripts/whisper_server.py\<close>\<close>

subsection \<open>Configuration and start-up\<close>

definition MODEL_SIZE :: "runtime \<Rightarrow> ustr" where
  "MODEL_SIZE rt = (case environ rt ''WHISPER_MODEL'' of Some v \<Rightarrow> v | None \<Rightarrow> latin1 ''small'')"

definition DEVICE :: "runtime \<Rightarrow> ustr" where
  "DEVICE rt = (case environ rt ''WHISPER_DEVICE'' of Some v \<Rightarrow> v | None \<Rightarrow> latin1 ''cuda'')"

definition COMPUTE_TYPE :: "runtime \<Rightarrow> ustr" where
  "COMPUTE_TYPE rt =
     (case environ rt ''WHISPER_COMPUTE_TYPE'' of Some v \<Rightarrow> v | None \<Rightarrow> latin1 ''float16'')"

definition get_device :: "runtime \<Rightarrow> process \<Rightarrow> ustr \<times> process" where
  "get_device rt s =
     (if DEVICE rt = latin1 ''cuda'' then
        (case torch rt of
           TorchInstalled (Some name) \<Rightarrow>
             (latin1 ''cuda'', print (latin1 ''[whisper-server] CUDA available: '' @ name) s)
         | TorchInstalled None \<Rightarrow>
             (latin1 ''cpu'',
              print (latin1 ''[whisper-server] CUDA not available, falling back to CPU'') s)
         | TorchNotInstalled \<Rightarrow>
             (latin1 ''cpu'',
              print (latin1 ''[whisper-server] torch not installed, falling back to CPU'') s))
      else (DEVICE rt, s))"

definition get_compute_type :: "runtime \<Rightarrow> ustr \<Rightarrow> ustr" where
  "get_compute_type rt device = (if device = latin1 ''cpu'' then latin1 ''int8'' else COMPUTE_TYPE rt)"

text \<open>The module's top-level statements: resolve device and precision, load the model,
  and on an exception print the failure and \<open>sys.exit(1)\<close>. The listening port is not
  part of the model.\<close>

definition startup :: "runtime \<Rightarrow> process \<Rightarrow> process" where
  "startup rt s =
     (let s1 = print (latin1 ''[whisper-server] Loading model: '' @ MODEL_SIZE rt) s;
          (device, s2) = get_device rt s1;
          compute_type = get_compute_type rt device;
          s3 = print (latin1 ''[whisper-server] Device: '' @ device
                        @ latin1 '', Compute type: '' @ compute_type)
                 (s2\<lparr>actual_device := device, actual_compute_type := compute_type\<rparr>)
      in case WhisperModel rt (MODEL_SIZE rt) device compute_type of
           None \<Rightarrow> print (latin1 ''[whisper-server] Model loaded successfully'') s3
         | Some e \<Rightarrow>
             (print (latin1 ''[whisper-server] Failed to load model: '' @ str_exn e) s3)
               \<lparr>exit_status := Some 1\<rparr>)"

subsection \<open>The request handler\<close>

text \<open>
  A parsed request: method, path, the header values (looked up by header name), and the
  bytes that follow the headers on the connection. The response body is kept as the
  dictionary given to \<open>json.dumps\<close>; the \<open>Content-Length\<close> response header and access
  logging are not part of the model.
\<close>

record request =
  command :: string
  path :: string
  headers :: "string \<rightharpoonup> string"
  body :: bytes

definition send_json_response :: "pydict \<Rightarrow> process \<Rightarrow> process" where
  "send_json_response data s =
     s\<lparr>wfile := wfile s @
        [\<lparr>status = 200, content_type = ''application/json; charset=utf-8'',
          content = JsonBody data\<rparr>]\<rparr>"

definition send_error_response :: "ustr \<Rightarrow> process \<Rightarrow> process" where
  "send_error_response error_message s =
     s\<lparr>wfile := wfile s @
        [\<lparr>status = 200, content_type = ''application/json; charset=utf-8'',
          content = JsonBody [(''success'', PyBool False), (''error'', PyStr error_message)]\<rparr>]\<rparr>"

text \<open>\<open>send_error\<close> of the base class \<open>BaseHTTPRequestHandler\<close>: a response with the given
  status and the library's HTML error page.\<close>

definition send_error :: "nat \<Rightarrow> process \<Rightarrow> process" where
  "send_error code s =
     s\<lparr>wfile := wfile s @
        [\<lparr>status = code, content_type = ''text/html;charset=utf-8'', content = ErrorPage\<rparr>]\<rparr>"

text \<open>\<open>int(self.headers.get('Content-Length', 0))\<close>\<close>

definition content_length :: "request \<Rightarrow> exn + int" where
  "content_length req =
     (case headers req ''Content-Length'' of None \<Rightarrow> Inr 0 | Some v \<Rightarrow> py_int v)"

text \<open>
  \<open>self.rfile.read(n)\<close> on the buffered connection stream of a 64-bit interpreter
  (\<open>sys.maxsize\<close> is \<open>2^63 - 1\<close>). Below \<open>-1\<close> the stream raises \<open>ValueError\<close>; \<open>-1\<close> reads
  all of the stream. A length above \<open>sys.maxsize\<close> does not fit an index, and one
  above \<open>sys.maxsize - 33\<close> is too large for a byte string: both raise
  \<open>OverflowError\<close>. Otherwise the result buffer of \<open>n\<close> bytes is allocated before
  anything is read, which raises \<open>MemoryError\<close> (whose text is empty) when the
  interpreter cannot allocate it; then \<open>n\<close> bytes are returned, or fewer when the
  stream ends first.
\<close>

definition maxsize :: int where
  "maxsize = 2 ^ 63 - 1"

definition rfile_read :: "runtime \<Rightarrow> int \<Rightarrow> process \<Rightarrow> exn + bytes \<times> process" where
  "rfile_read rt n s =
     (if n < - 1 then Inl (ValueError (latin1 ''read length must be non-negative or -1''))
      else if n = - 1 then Inr (rfile s, s\<lparr>rfile := []\<rparr>)
      else if maxsize < n
        then Inl (Exception ''OverflowError''
                    (latin1 (''cannot fit '' @ [CHR 0x27] @ ''int'' @ [CHR 0x27]
                       @ '' into an index-sized integer'')))
      else if maxsize - 33 < n
        then Inl (Exception ''OverflowError'' (latin1 ''byte string is too large''))
      else if \<not> can_allocate rt n then Inl (Exception ''MemoryError'' [])
      else Inr (take (nat n) (rfile s), s\<lparr>rfile := drop (nat n) (rfile s)\<rparr>))"

definition hallucinations :: "ustr list" where
  "hallucinations =
     [[0x3054, 0x8996, 0x8074, 0x3042, 0x308A, 0x304C, 0x3068, 0x3046, 0x3054, 0x3056,
       0x3044, 0x307E, 0x3057, 0x305F],
      [0x30C1, 0x30E3, 0x30F3, 0x30CD, 0x30EB, 0x767B, 0x9332],
      [0x9AD8, 0x8A55, 0x4FA1],
      latin1 ''Subtitles by'',
      latin1 ''Amara.org'']"

text \<open>The loop \<open>for h in hallucinations: if h in text: text = ""; break\<close>\<close>

fun filter_hallucinations :: "ustr list \<Rightarrow> ustr \<Rightarrow> ustr" where
  "filter_hallucinations [] text = text"
| "filter_hallucinations (h # hs) text =
     (if sublist h text then [] else filter_hallucinations hs text)"

definition initial_prompt :: ustr where
  "initial_prompt =
     [0x4EE5, 0x4E0B, 0x306F, 0x3001, 0x30DE, 0x30A4, 0x30AF, 0x304B, 0x3089, 0x306E,
      0x5165, 0x529B, 0x97F3, 0x58F0, 0x306B, 0x5BFE, 0x3059, 0x308B, 0x3001, 0x30CE,
      0x30A4, 0x30BA, 0x3092, 0x9664, 0x53BB, 0x3057, 0x305F, 0x65E5, 0x672C, 0x8A9E,
      0x306E, 0x6587, 0x5B57, 0x8D77, 0x3053, 0x3057, 0x3067, 0x3059, 0x3002]"

definition server_call :: "path \<Rightarrow> call" where
  "server_call tmp_path =
     \<lparr>audio = tmp_path,
      kwargs =
        [(''language'', PyStr (latin1 ''ja'')),
         (''beam_size'', PyInt 5),
         (''best_of'', PyInt 5),
         (''vad_filter'', PyBool True),
         (''vad_parameters'',
            PyDict [(''min_silence_duration_ms'', PyInt 1000), (''speech_pad_ms'', PyInt 400)]),
         (''word_timestamps'', PyBool False),
         (''condition_on_previous_text'', PyBool False),
         (''initial_prompt'', PyStr initial_prompt),
         (''no_speech_threshold'', PyFloat (6 / 10))]\<rparr>"

definition server_result :: "ustr \<Rightarrow> info \<Rightarrow> pydict" where
  "server_result text info =
     [(''success'', PyBool True),
      (''text'', PyStr text),
      (''language'', PyStr (language info)),
      (''language_probability'', PyFloat (language_probability info)),
      (''duration'', PyFloat (duration info))]"

text \<open>The body of the outer \<open>try\<close> of \<open>do_POST\<close>: the state it leaves, and the exception
  that escapes it, if any. The temporary file is written before the inner \<open>try\<close> is
  entered; the inner \<open>finally\<close> runs \<open>os.unlink\<close> on both outcomes of the inference
  call.\<close>

definition do_POST_try :: "runtime \<Rightarrow> request \<Rightarrow> process \<Rightarrow> exn option \<times> process" where
  "do_POST_try rt req s =
     (case content_length req of
        Inl e \<Rightarrow> (Some e, s)
      | Inr n \<Rightarrow>
          if n = 0 then (None, send_error_response (latin1 ''No audio data received'') s)
          else
            (case rfile_read rt n s of
               Inl e \<Rightarrow> (Some e, s)
             | Inr (wav_data, s1) \<Rightarrow>
                 if length wav_data < 44
                 then (None, send_error_response (latin1 ''Invalid WAV data (too short)'') s1)
                 else
                   (case tmp_write rt wav_data s1 of
                      (Inl e, s2) \<Rightarrow> (Some e, s2)
                    | (Inr tmp_path, s2) \<Rightarrow>
                        (case model_transcribe rt (server_call tmp_path) s2 of
                           (Inl e, s3) \<Rightarrow> (Some e, unlink tmp_path s3)
                         | (Inr (segments, info), s3) \<Rightarrow>
                             (let text = strip (concat segments);
                                  text = filter_hallucinations hallucinations text;
                                  result = server_result text info
                              in (None, send_json_response result (unlink tmp_path s3)))))))"

definition do_POST :: "runtime \<Rightarrow> request \<Rightarrow> process \<Rightarrow> process" where
  "do_POST rt req s =
     (case do_POST_try rt req s of
        (None, s') \<Rightarrow> s'
      | (Some e, s') \<Rightarrow>
          send_error_response (str_exn e) (s'\<lparr>stderr := stderr s' @ [Traceback e]\<rparr>))"

definition do_GET :: "runtime \<Rightarrow> request \<Rightarrow> process \<Rightarrow> process" where
  "do_GET rt req s =
     (if path req = ''/health'' then
        send_json_response
          [(''status'', PyStr (latin1 ''ok'')),
           (''model'', PyStr (MODEL_SIZE rt)),
           (''device'', PyStr (actual_device s)),
           (''compute_type'', PyStr (actual_compute_type s))] s
      else send_error 404 s)"

text \<open>
  Dispatch of the base class (\<open>BaseHTTPRequestHandler.handle_one_request\<close> of the standard
  library): the method \<open>do_\<close> followed by the request's command is called when the handler
  class has it, and 501 is sent otherwise. \<open>TranscribeHandler\<close> defines \<open>do_POST\<close> and
  \<open>do_GET\<close> only.
\<close>

definition handle_one_request :: "runtime \<Rightarrow> request \<Rightarrow> process \<Rightarrow> process" where
  "handle_one_request rt req s =
     (let s0 = s\<lparr>rfile := body req\<rparr>
      in if command req = ''POST'' then do_POST rt req s0
         else if command req = ''GET'' then do_GET rt req s0
         else send_error 501 s0)"

fun serve_forever :: "runtime \<Rightarrow> request list \<Rightarrow> process \<Rightarrow> process" where
  "serve_forever rt [] s = s"
| "serve_forever rt (req # reqs) s = serve_forever rt reqs (handle_one_request rt req s)"

text \<open>The whole server process on a sequence of requests: nothing is served once the
  module's start-up has exited.\<close>

definition whisper_server :: "runtime \<Rightarrow> (path \<rightharpoonup> bytes) \<Rightarrow> request list \<Rightarrow> process" where
  "whisper_server rt fs reqs =
     (let s = startup rt (boot fs)
      in case exit_status s of Some _ \<Rightarrow> s | None \<Rightarrow> serve_forever rt reqs s)"

section \<open>The command-line script, \<open>scripts/transcribe.py\<close>\<close>

definition cli_MODEL_SIZE :: ustr where "cli_MODEL_SIZE = latin1 ''small''"
definition cli_DEVICE :: ustr where "cli_DEVICE = latin1 ''cuda''"
definition cli_COMPUTE_TYPE :: ustr where "cli_COMPUTE_TYPE = latin1 ''float16''"

definition load_model :: "runtime \<Rightarrow> process \<Rightarrow> exn option \<times> process" where
  "load_model rt s =
     (if model_loaded s then (None, s)
      else
        (let s1 = stderr_write
                    (latin1 ''[faster-whisper] Loading model: '' @ cli_MODEL_SIZE @ [10]) s
         in case WhisperModel rt cli_MODEL_SIZE cli_DEVICE cli_COMPUTE_TYPE of
              Some e \<Rightarrow> (Some e, s1)
            | None \<Rightarrow>
                (None,
                 stderr_write (latin1 ''[faster-whisper] Model loaded'' @ [10])
                   (s1\<lparr>model_loaded := True\<rparr>))))"

definition cli_call :: "path \<Rightarrow> call" where
  "cli_call tmp_path =
     \<lparr>audio = tmp_path,
      kwargs =
        [(''language'', PyStr (latin1 ''ja'')),
         (''beam_size'', PyInt 5),
         (''vad_filter'', PyBool True),
         (''vad_parameters'', PyDict [(''min_silence_duration_ms'', PyInt 500)])]\<rparr>"

definition cli_result :: "ustr \<Rightarrow> info \<Rightarrow> pydict" where
  "cli_result text info =
     [(''success'', PyBool True),
      (''text'', PyStr (strip text)),
      (''language'', PyStr (language info)),
      (''duration'', PyFloat (duration info))]"

definition transcribe_wav :: "runtime \<Rightarrow> bytes \<Rightarrow> process \<Rightarrow> (exn + pydict) \<times> process" where
  "transcribe_wav rt wav_bytes s =
     (case load_model rt s of
        (Some e, s1) \<Rightarrow> (Inl e, s1)
      | (None, s1) \<Rightarrow>
          (case wave_framerate rt wav_bytes of
             Inl e \<Rightarrow> (Inl e, s1)
           | Inr sample_rate \<Rightarrow>
               (let s2 = (if sample_rate \<noteq> 16000
                          then stderr_write
                                 (latin1 (''[faster-whisper] Warning: sample rate ''
                                    @ decimal sample_rate @ '' != 16000'') @ [10]) s1
                          else s1)
                in case tmp_write rt wav_bytes s2 of
                     (Inl e, s3) \<Rightarrow> (Inl e, s3)
                   | (Inr tmp_path, s3) \<Rightarrow>
                       (case model_transcribe rt (cli_call tmp_path) s3 of
                          (Inl e, s4) \<Rightarrow> (Inl e, unlink tmp_path s4)
                        | (Inr (segments, info), s4) \<Rightarrow>
                            (Inr (cli_result (concat segments) info), unlink tmp_path s4)))))"

text \<open>\<open>main\<close> of the script; \<open>wav_data\<close> is all of standard input.\<close>

definition transcribe_main :: "runtime \<Rightarrow> bytes \<Rightarrow> process \<Rightarrow> process" where
  "transcribe_main rt wav_data s =
     (let (result, s') =
            (if length wav_data < 44
             then ([(''success'', PyBool False), (''error'', PyStr (latin1 ''Invalid WAV data''))], s)
             else
               (case transcribe_wav rt wav_data s of
                  (Inr r, s1) \<Rightarrow> (r, s1)
                | (Inl e, s1) \<Rightarrow>
                    ([(''success'', PyBool False), (''error'', PyStr (str_exn e))], s1)))
      in s'\<lparr>stdout := stdout s' @ [JsonLine result]\<rparr>)"


section \<open>Concrete runs\<close>

text \<open>
  A well-formed recording: the 44-byte header of a mono, 16-bit, 16 kHz PCM WAV file
  followed by four frames of silence. \<open>riff_framerate\<close> is what the \<open>wave\<close> module does on
  byte strings of that layout (a \<open>fmt\<close> chunk of 16 bytes directly followed by the
  \<open>data\<close> chunk) and on byte strings that are no RIFF/WAVE file at all; files with
  further chunks are not needed by the runs below and are reported here as lacking
  their chunks.
\<close>

definition example_wav :: bytes where
  "example_wav =
     [82, 73, 70, 70, 44, 0, 0, 0, 87, 65, 86, 69, 102, 109, 116, 32, 16, 0, 0, 0, 1, 0, 1, 0,
      128, 62, 0, 0, 0, 125, 0, 0, 2, 0, 16, 0, 100, 97, 116, 97, 8, 0, 0, 0,
      0, 0, 0, 0, 0, 0, 0, 0]"

definition wave_error :: "string \<Rightarrow> exn" where
  "wave_error msg = Exception ''Error'' (latin1 msg)"

definition riff_framerate :: "bytes \<Rightarrow> exn + nat" where
  "riff_framerate b =
     (if take 4 b \<noteq> [82, 73, 70, 70] then Inl (wave_error ''file does not start with RIFF id'')
      else if take 4 (drop 8 b) \<noteq> [87, 65, 86, 69] then Inl (wave_error ''not a WAVE file'')
      else if take 10 (drop 12 b) = [102, 109, 116, 32, 16, 0, 0, 0, 1, 0]
              \<and> take 2 (drop 22 b) \<noteq> [0, 0]
              \<and> take 2 (drop 34 b) = [16, 0]
              \<and> take 4 (drop 36 b) = [100, 97, 116, 97]
        then Inr (unat (b ! 24) + 256 * unat (b ! 25) + 65536 * unat (b ! 26)
                    + 16777216 * unat (b ! 27))
      else Inl (wave_error ''fmt chunk and/or data chunk missing''))"

text \<open>A runtime without \<open>torch\<close> whose library recognises two segments, whose disk takes
  the temporary file and whose interpreter can allocate up to 4 GiB at once; and variants
  of it whose inference call raises, emits a blocked phrase, hears nothing, whose model
  cannot be loaded, or whose disk is full.\<close>

definition example_info :: info where
  "example_info = \<lparr>language = latin1 ''ja'', language_probability = 9 / 10, duration = 3 / 2\<rparr>"

definition example_runtime :: runtime where
  "example_runtime =
     \<lparr>environ = Map.empty,
      torch = TorchNotInstalled,
      WhisperModel = (\<lambda>_ _ _. None),
      transcribe = (\<lambda>_ _. Inr ([[32, 0x3053, 0x3093], [0x306B, 0x3061, 0x306F, 32]], example_info)),
      tmp_name = ''/tmp/tmpk3a9.wav'',
      tmp_create_error = None,
      tmp_write_error = (\<lambda>_. None),
      can_allocate = (\<lambda>n. n \<le> 2 ^ 32),
      wave_framerate = riff_framerate\<rparr>"

definition failing_runtime :: runtime where
  "failing_runtime =
     example_runtime\<lparr>transcribe :=
       (\<lambda>_ _. Inl (Exception ''RuntimeError'' (latin1 ''decoder failed'')))\<rparr>"

definition hallucinating_runtime :: runtime where
  "hallucinating_runtime =
     example_runtime\<lparr>transcribe :=
       (\<lambda>_ _. Inr ([latin1 ''ok '', [0x9AD8, 0x8A55, 0x4FA1], latin1 ''!''], example_info))\<rparr>"

definition silent_runtime :: runtime where
  "silent_runtime = example_runtime\<lparr>transcribe := (\<lambda>_ _. Inr ([], example_info))\<rparr>"

definition unloadable_runtime :: runtime where
  "unloadable_runtime =
     example_runtime\<lparr>WhisperModel :=
       (\<lambda>_ _ _. Some (Exception ''RuntimeError'' (latin1 ''out of memory'')))\<rparr>"

definition full_disk_runtime :: runtime where
  "full_disk_runtime =
     example_runtime\<lparr>tmp_write_error :=
       (\<lambda>_. Some (Exception ''OSError'' (latin1 ''[Errno 28] No space left on device''), []))\<rparr>"

definition post :: "string \<Rightarrow> bytes \<Rightarrow> request" where
  "post len b = \<lparr>command = ''POST'', path = ''/'', headers = [''Content-Length'' \<mapsto> len], body = b\<rparr>"

definition connection :: "bytes \<Rightarrow> process" where
  "connection b = (boot Map.empty)\<lparr>rfile := b\<rparr>"


section \<open>Properties\<close>

subsection \<open>Auxiliary facts\<close>

lemma filter_hallucinations_eq:
  "filter_hallucinations hs text = (if \<exists>h\<in>set hs. sublist h text then [] else text)"
  by (induction hs) auto

lemma rfile_read_cases:
  assumes "rfile_read rt n s = Inr (d, s1)"
  shows "- 1 \<le> n \<and> d = (if n = - 1 then rfile s else take (nat n) (rfile s))
         \<and> s1 = s\<lparr>rfile := (if n = - 1 then [] else drop (nat n) (rfile s))\<rparr>"
  using assms by (auto simp: rfile_read_def split: if_splits)

lemma rfile_read_fields:
  assumes "rfile_read rt n s = Inr (d, s1)"
  shows "files s1 = files s" "calls s1 = calls s" "wfile s1 = wfile s" "stderr s1 = stderr s"
    "stdout s1 = stdout s" "length d \<le> length (rfile s)"
  using rfile_read_cases[OF assms] by (auto split: if_splits)

lemma tmp_write_cases:
  "tmp_write rt d s = (Inr p, s2) \<Longrightarrow> p = tmp_name rt \<and> s2 = s\<lparr>files := (files s)(tmp_name rt \<mapsto> d)\<rparr>"
  "tmp_write rt d s = (Inl e, s2) \<Longrightarrow>
     s2 = s \<or> (\<exists>reached. s2 = s\<lparr>files := (files s)(tmp_name rt \<mapsto> reached)\<rparr>)"
  by (auto simp: tmp_write_def split: option.splits prod.splits)

lemma tmp_write_fields:
  assumes "tmp_write rt d s = (r, s2)"
  shows "calls s2 = calls s" "wfile s2 = wfile s" "rfile s2 = rfile s"
    "actual_device s2 = actual_device s" "actual_compute_type s2 = actual_compute_type s"
  using assms by (auto simp: tmp_write_def split: option.splits prod.splits)

text \<open>Once a non-zero length has been parsed, at least 44 bytes have been read and the
  temporary file has been written, the handler calls the library and removes the file
  again.\<close>

lemma do_POST_try_inference:
  assumes "content_length req = Inr n" "n \<noteq> 0" "rfile_read rt n s = Inr (wav_data, s1)"
    and "44 \<le> length wav_data" "tmp_write rt wav_data s1 = (Inr (tmp_name rt), s2)"
  shows "do_POST_try rt req s =
     (case transcribe rt ((files s)(tmp_name rt \<mapsto> wav_data)) (server_call (tmp_name rt)) of
        Inl e \<Rightarrow>
          (Some e, s1\<lparr>calls := calls s @ [server_call (tmp_name rt)],
                       files := (files s)(tmp_name rt := None)\<rparr>)
      | Inr (segments, info) \<Rightarrow>
          (None, send_json_response
             (server_result (filter_hallucinations hallucinations (strip (concat segments))) info)
             (s1\<lparr>calls := calls s @ [server_call (tmp_name rt)],
                  files := (files s)(tmp_name rt := None)\<rparr>)))"
  using assms rfile_read_fields[OF assms(3)] tmp_write_cases(1)[OF assms(5)]
  by (auto simp: do_POST_try_def Let_def model_transcribe_def unlink_def
      split: sum.splits prod.splits)

text \<open>Facts about the concrete runs.\<close>

lemmas run_simps = py_int_def int_space_def is_digit_def digit_value_def content_length_def
  rfile_read_def maxsize_def post_def connection_def boot_def latin1_def

lemma example_io:
  "can_allocate example_runtime n = (n \<le> 2 ^ 32)"
  "tmp_name example_runtime = ''/tmp/tmpk3a9.wav''"
  "tmp_write example_runtime d s =
     (Inr ''/tmp/tmpk3a9.wav'', s\<lparr>files := (files s)(''/tmp/tmpk3a9.wav'' \<mapsto> d)\<rparr>)"
  "wave_framerate example_runtime = riff_framerate"
  by (simp_all add: example_runtime_def tmp_write_def)

lemma failing_io:
  "can_allocate failing_runtime n = (n \<le> 2 ^ 32)"
  "tmp_name failing_runtime = ''/tmp/tmpk3a9.wav''"
  "tmp_write failing_runtime d s =
     (Inr ''/tmp/tmpk3a9.wav'', s\<lparr>files := (files s)(''/tmp/tmpk3a9.wav'' \<mapsto> d)\<rparr>)"
  "wave_framerate failing_runtime = riff_framerate"
  by (simp_all add: failing_runtime_def example_runtime_def tmp_write_def)

lemma hallucinating_io:
  "can_allocate hallucinating_runtime n = (n \<le> 2 ^ 32)"
  "tmp_name hallucinating_runtime = ''/tmp/tmpk3a9.wav''"
  "tmp_write hallucinating_runtime d s =
     (Inr ''/tmp/tmpk3a9.wav'', s\<lparr>files := (files s)(''/tmp/tmpk3a9.wav'' \<mapsto> d)\<rparr>)"
  by (simp_all add: hallucinating_runtime_def example_runtime_def tmp_write_def)

lemma silent_io:
  "can_allocate silent_runtime n = (n \<le> 2 ^ 32)"
  "tmp_name silent_runtime = ''/tmp/tmpk3a9.wav''"
  "tmp_write silent_runtime d s =
     (Inr ''/tmp/tmpk3a9.wav'', s\<lparr>files := (files s)(''/tmp/tmpk3a9.wav'' \<mapsto> d)\<rparr>)"
  by (simp_all add: silent_runtime_def example_runtime_def tmp_write_def)

lemma full_disk_io:
  "can_allocate full_disk_runtime n = (n \<le> 2 ^ 32)"
  "tmp_name full_disk_runtime = ''/tmp/tmpk3a9.wav''"
  "tmp_write full_disk_runtime d s =
     (Inl (Exception ''OSError'' (latin1 ''[Errno 28] No space left on device'')),
      s\<lparr>files := (files s)(''/tmp/tmpk3a9.wav'' \<mapsto> [])\<rparr>)"
  "wave_framerate full_disk_runtime = riff_framerate"
  by (simp_all add: full_disk_runtime_def example_runtime_def tmp_write_def)

lemma post_44: "content_length (post ''44'' b) = Inr 44"
  by (simp add: run_simps)

lemma post_52: "content_length (post ''52'' b) = Inr 52"
  by (simp add: run_simps)

lemma read_44:
  assumes "can_allocate rt 44"
  shows "rfile_read rt 44 (connection (replicate 44 0)) =
     Inr (replicate 44 0, (connection (replicate 44 0))\<lparr>rfile := []\<rparr>)"
  using assms by (simp add: run_simps)

lemma read_52:
  assumes "can_allocate rt 52"
  shows "rfile_read rt 52 (connection example_wav) =
     Inr (example_wav, (connection example_wav)\<lparr>rfile := []\<rparr>)"
  using assms by (simp add: run_simps example_wav_def)

lemma example_wav_framerate: "riff_framerate example_wav = Inr 16000"
  by (simp add: riff_framerate_def example_wav_def)

lemma example_wav_length: "length example_wav = 52"
  by (simp add: example_wav_def)

lemma example_transcribes:
  "transcribe example_runtime fs c =
     Inr ([[32, 0x3053, 0x3093], [0x306B, 0x3061, 0x306F, 32]], example_info)"
  by (simp add: example_runtime_def)

lemma hallucinating_transcribes:
  "transcribe hallucinating_runtime fs c =
     Inr ([latin1 ''ok '', [0x9AD8, 0x8A55, 0x4FA1], latin1 ''!''], example_info)"
  by (simp add: hallucinating_runtime_def example_runtime_def)

lemma failing_transcribes:
  "transcribe failing_runtime fs c = Inl (Exception ''RuntimeError'' (latin1 ''decoder failed''))"
  by (simp add: failing_runtime_def example_runtime_def)

lemma silent_transcribes: "transcribe silent_runtime fs c = Inr ([], example_info)"
  by (simp add: silent_runtime_def example_runtime_def)

subsection \<open>The hallucination filter\<close>



subsection \<open>Payloads below the WAV header size\<close>

text \<open>With fewer than 44 bytes on the connection the handler never gets past its length
  checks, whatever the \<open>Content-Length\<close> header says.\<close>

lemma do_POST_try_short:
  assumes "length (rfile s) < 44"
  shows "do_POST_try rt req s =
     (case content_length req of
        Inl e \<Rightarrow> (Some e, s)
      | Inr n \<Rightarrow>
          if n = 0 then (None, send_error_response (latin1 ''No audio data received'') s)
          else
            (case rfile_read rt n s of
               Inl e \<Rightarrow> (Some e, s)
             | Inr (wav_data, s1) \<Rightarrow>
                 (None, send_error_response (latin1 ''Invalid WAV data (too short)'') s1)))"
proof (cases "content_length req")
  case (Inl e)
  then show ?thesis by (simp add: do_POST_try_def)
next
  case (Inr n)
  show ?thesis
  proof (cases "rfile_read rt n s")
    case (Inl e)
    with \<open>content_length req = Inr n\<close> show ?thesis by (simp add: do_POST_try_def)
  next
    case (Inr p)
    obtain wav_data s1 where p: "p = (wav_data, s1)" by (cases p)
    from rfile_read_fields(6)[OF Inr[unfolded p]] assms have "length wav_data < 44" by simp
    with \<open>content_length req = Inr n\<close> Inr p show ?thesis by (simp add: do_POST_try_def)
  qed
qed

text \<open>
  Claim C1, as amended. For every payload shorter than 44 bytes the command-line script
  prints a result with \<open>success = false\<close> and the error \<open>Invalid WAV data\<close>, and the
  server's POST handler answers with \<open>success = false\<close>; neither invokes
  \<open>model.transcribe\<close>. The server's error is \<open>Invalid WAV data (too short)\<close> whenever the
  \<open>Content-Length\<close> header parses to a non-zero length and reading that many bytes from
  the connection returns; for an absent or zero \<open>Content-Length\<close> the handler's earlier
  guard answers \<open>No audio data received\<close> instead, and when the header does not parse or
  the read raises, the error is the text of that exception.
\<close>

theorem short_payload_rejected:
  assumes "length wav_data < 44"
  shows "stdout (transcribe_main rt wav_data s) =
           stdout s @ [JsonLine [(''success'', PyBool False),
                                 (''error'', PyStr (latin1 ''Invalid WAV data''))]]
       \<and> calls (transcribe_main rt wav_data s) = calls s
       \<and> (rfile s = wav_data \<longrightarrow>
            calls (do_POST rt req s) = calls s
            \<and> (\<exists>msg. wfile (do_POST rt req s) = wfile s @
                  [\<lparr>status = 200, content_type = ''application/json; charset=utf-8'',
                    content = JsonBody [(''success'', PyBool False), (''error'', PyStr msg)]\<rparr>]))
       \<and> (rfile s = wav_data \<and> content_length req = Inr n \<and> n \<noteq> 0
            \<and> rfile_read rt n s = Inr (d, s1) \<longrightarrow>
            wfile (do_POST rt req s) = wfile s @
              [\<lparr>status = 200, content_type = ''application/json; charset=utf-8'',
                content = JsonBody [(''success'', PyBool False),
                                    (''error'', PyStr (latin1 ''Invalid WAV data (too short)''))]\<rparr>])
       \<and> (rfile s = wav_data \<and> content_length req = Inr n \<and> n \<noteq> 0
            \<and> rfile_read rt n s = Inl e \<longrightarrow>
            wfile (do_POST rt req s) = wfile s @
              [\<lparr>status = 200, content_type = ''application/json; charset=utf-8'',
                content = JsonBody [(''success'', PyBool False), (''error'', PyStr (str_exn e))]\<rparr>])
       \<and> (rfile s = wav_data \<and> content_length req = Inl e \<longrightarrow>
            wfile (do_POST rt req s) = wfile s @
              [\<lparr>status = 200, content_type = ''application/json; charset=utf-8'',
                content = JsonBody [(''success'', PyBool False), (''error'', PyStr (str_exn e))]\<rparr>])"
proof -
  have cli: "transcribe_main rt wav_data s =
      s\<lparr>stdout := stdout s @ [JsonLine [(''success'', PyBool False),
                                         (''error'', PyStr (latin1 ''Invalid WAV data''))]]\<rparr>"
    using assms by (simp add: transcribe_main_def)
  have srv: "calls (do_POST rt req s) = calls s
       \<and> (\<exists>msg. wfile (do_POST rt req s) = wfile s @
              [\<lparr>status = 200, content_type = ''application/json; charset=utf-8'',
                content = JsonBody [(''success'', PyBool False), (''error'', PyStr msg)]\<rparr>])"
    if "rfile s = wav_data"
  proof -
    from that assms have short: "length (rfile s) < 44" by simp
    show ?thesis
    proof (cases "content_length req")
      case (Inl e)
      then show ?thesis
        by (simp add: do_POST_def do_POST_try_short[OF short] send_error_response_def)
    next
      case (Inr n)
      show ?thesis
      proof (cases "rfile_read rt n s")
        case (Inl e)
        with \<open>content_length req = Inr n\<close> show ?thesis
          by (simp add: do_POST_def do_POST_try_short[OF short] send_error_response_def)
      next
        case (Inr p)
        obtain wd s1 where p: "p = (wd, s1)" by (cases p)
        from \<open>content_length req = Inr n\<close> Inr p rfile_read_fields[OF Inr[unfolded p]]
        show ?thesis
          by (simp add: do_POST_def do_POST_try_short[OF short] send_error_response_def)
      qed
    qed
  qed
  have msg: "wfile (do_POST rt req s) = wfile s @
              [\<lparr>status = 200, content_type = ''application/json; charset=utf-8'',
                content = JsonBody [(''success'', PyBool False),
                                    (''error'', PyStr (latin1 ''Invalid WAV data (too short)''))]\<rparr>]"
    if "rfile s = wav_data" "content_length req = Inr n" "n \<noteq> 0" "rfile_read rt n s = Inr (d, s1)"
  proof -
    from that(1) assms have short: "length (rfile s) < 44" by simp
    from that rfile_read_fields[OF that(4)] show ?thesis
      by (simp add: do_POST_def do_POST_try_short[OF short] send_error_response_def)
  qed
  have rd: "wfile (do_POST rt req s) = wfile s @
              [\<lparr>status = 200, content_type = ''application/json; charset=utf-8'',
                content = JsonBody [(''success'', PyBool False), (''error'', PyStr (str_exn e))]\<rparr>]"
    if "rfile s = wav_data" "content_length req = Inr n" "n \<noteq> 0" "rfile_read rt n s = Inl e"
  proof -
    from that(1) assms have short: "length (rfile s) < 44" by simp
    from that show ?thesis
      by (simp add: do_POST_def do_POST_try_short[OF short] send_error_response_def)
  qed
  have hd: "wfile (do_POST rt req s) = wfile s @
              [\<lparr>status = 200, content_type = ''application/json; charset=utf-8'',
                content = JsonBody [(''success'', PyBool False), (''error'', PyStr (str_exn e))]\<rparr>]"
    if "rfile s = wav_data" "content_length req = Inl e"
  proof -
    from that(1) assms have short: "length (rfile s) < 44" by simp
    from that show ?thesis
      by (simp add: do_POST_def do_POST_try_short[OF short] send_error_response_def)
  qed
  from cli have c1: "stdout (transcribe_main rt wav_data s) =
           stdout s @ [JsonLine [(''success'', PyBool False),
                                 (''error'', PyStr (latin1 ''Invalid WAV data''))]]"
    and c2: "calls (transcribe_main rt wav_data s) = calls s"
    by simp_all
  from c1 c2 srv msg rd hd show ?thesis by blast
qed

theorem short_payload_rejected_witness:
  "length (replicate 10 (0 :: 8 word)) < 44
   \<and> stdout (transcribe_main example_runtime (replicate 10 0) (boot Map.empty)) =
       [JsonLine [(''success'', PyBool False), (''error'', PyStr (latin1 ''Invalid WAV data''))]]
   \<and> calls (transcribe_main example_runtime (replicate 10 0) (boot Map.empty)) = []
   \<and> calls (do_POST example_runtime (post ''10'' []) (connection (replicate 10 0))) = []
   \<and> wfile (do_POST example_runtime (post ''10'' []) (connection (replicate 10 0))) =
       [\<lparr>status = 200, content_type = ''application/json; charset=utf-8'',
         content = JsonBody [(''success'', PyBool False),
                             (''error'', PyStr (latin1 ''Invalid WAV data (too short)''))]\<rparr>]
   \<and> wfile (do_POST example_runtime (post ''1000000000000000000000000000000'' [])
              (connection (replicate 10 0))) =
       [\<lparr>status = 200, content_type = ''application/json; charset=utf-8'',
         content = JsonBody
           [(''success'', PyBool False),
            (''error'', PyStr (latin1 (''cannot fit '' @ [CHR 0x27] @ ''int'' @ [CHR 0x27]
                                         @ '' into an index-sized integer'')))]\<rparr>]"
proof -
  have len: "length (replicate 10 (0 :: 8 word)) < 44" by simp
  have cl: "content_length (post ''10'' []) = Inr 10" by (simp add: run_simps)
  have rd: "rfile_read example_runtime 10 (connection (replicate 10 0)) =
      Inr (replicate 10 0, (connection (replicate 10 0))\<lparr>rfile := []\<rparr>)"
    by (simp add: run_simps example_io)
  have big: "content_length (post ''1000000000000000000000000000000'' []) =
      Inr 1000000000000000000000000000000"
    by (simp add: run_simps)
  have over: "rfile_read example_runtime 1000000000000000000000000000000
        (connection (replicate 10 0)) =
      Inl (Exception ''OverflowError''
             (latin1 (''cannot fit '' @ [CHR 0x27] @ ''int'' @ [CHR 0x27]
                        @ '' into an index-sized integer'')))"
    by (simp add: rfile_read_def maxsize_def)
  show ?thesis
    using len cl rd big over
      short_payload_rejected[OF len, of example_runtime "boot Map.empty"]
      short_payload_rejected[OF len, of example_runtime "connection (replicate 10 0)"
        "post ''10'' []" 10 "replicate 10 0" "(connection (replicate 10 0))\<lparr>rfile := []\<rparr>"]
      short_payload_rejected[OF len, of example_runtime "connection (replicate 10 0)"
        "post ''1000000000000000000000000000000'' []" 1000000000000000000000000000000 _ _
        "Exception ''OverflowError''
             (latin1 (''cannot fit '' @ [CHR 0x27] @ ''int'' @ [CHR 0x27]
                        @ '' into an index-sized integer''))"]
    by (simp add: connection_def boot_def)
qed

text \<open>The claim as first stated fails at the empty payload posted with
  \<open>Content-Length: 0\<close>: the server's error does not begin with \<open>Invalid WAV data\<close>.\<close>

theorem short_payload_counterexample:
  "length ([] :: bytes) < 44
   \<and> wfile (do_POST example_runtime (post ''0'' []) (connection [])) =
       [\<lparr>status = 200, content_type = ''application/json; charset=utf-8'',
         content = JsonBody [(''success'', PyBool False),
                             (''error'', PyStr (latin1 ''No audio data received''))]\<rparr>]
   \<and> \<not> prefix (latin1 ''Invalid WAV data'') (latin1 ''No audio data received'')"
  by (simp add: do_POST_def do_POST_try_def send_error_response_def run_simps)

subsection \<open>Status of POST responses\<close>

text \<open>
  Claim C4. Every POST request receives exactly one response with HTTP status 200 and a
  JSON body, and the \<open>success\<close> field tells the outcome. The body is \<open>success = true\<close>
  with \<open>text\<close>, \<open>language\<close>, \<open>language_probability\<close> and \<open>duration\<close> exactly when a
  non-zero \<open>Content-Length\<close> was parsed, at least 44 bytes were read, the temporary file
  was written and the inference call returned. In every other case it is
  \<open>success = false\<close> with an \<open>error\<close> string: \<open>No audio data received\<close> for a zero or
  absent length, \<open>Invalid WAV data (too short)\<close> for fewer than 44 bytes, and the text of
  the exception when the header does not parse, the read raises, the temporary file
  cannot be written, or the inference call raises.
\<close>

theorem post_always_200:
  "(\<exists>d. wfile (do_POST rt req s) = wfile s @
          [\<lparr>status = 200, content_type = ''application/json; charset=utf-8'',
            content = JsonBody d\<rparr>]
        \<and> ((\<exists>text lang prob dur. d =
               [(''success'', PyBool True), (''text'', PyStr text), (''language'', PyStr lang),
                (''language_probability'', PyFloat prob), (''duration'', PyFloat dur)])
           \<or> (\<exists>msg. d = [(''success'', PyBool False), (''error'', PyStr msg)])))
   \<and> (content_length req = Inl e \<longrightarrow>
        wfile (do_POST rt req s) = wfile s @
          [\<lparr>status = 200, content_type = ''application/json; charset=utf-8'',
            content = JsonBody [(''success'', PyBool False), (''error'', PyStr (str_exn e))]\<rparr>])
   \<and> (content_length req = Inr 0 \<longrightarrow>
        wfile (do_POST rt req s) = wfile s @
          [\<lparr>status = 200, content_type = ''application/json; charset=utf-8'',
            content = JsonBody [(''success'', PyBool False),
                                (''error'', PyStr (latin1 ''No audio data received''))]\<rparr>])
   \<and> (content_length req = Inr n \<and> n \<noteq> 0 \<and> rfile_read rt n s = Inl e \<longrightarrow>
        wfile (do_POST rt req s) = wfile s @
          [\<lparr>status = 200, content_type = ''application/json; charset=utf-8'',
            content = JsonBody [(''success'', PyBool False), (''error'', PyStr (str_exn e))]\<rparr>])
   \<and> (content_length req = Inr n \<and> n \<noteq> 0 \<and> rfile_read rt n s = Inr (wav_data, s1)
        \<and> length wav_data < 44 \<longrightarrow>
        wfile (do_POST rt req s) = wfile s @
          [\<lparr>status = 200, content_type = ''application/json; charset=utf-8'',
            content = JsonBody [(''success'', PyBool False),
                                (''error'', PyStr (latin1 ''Invalid WAV data (too short)''))]\<rparr>])
   \<and> (content_length req = Inr n \<and> n \<noteq> 0 \<and> rfile_read rt n s = Inr (wav_data, s1)
        \<and> 44 \<le> length wav_data \<and> tmp_write rt wav_data s1 = (Inl e, s2) \<longrightarrow>
        wfile (do_POST rt req s) = wfile s @
          [\<lparr>status = 200, content_type = ''application/json; charset=utf-8'',
            content = JsonBody [(''success'', PyBool False), (''error'', PyStr (str_exn e))]\<rparr>])
   \<and> (content_length req = Inr n \<and> n \<noteq> 0 \<and> rfile_read rt n s = Inr (wav_data, s1)
        \<and> 44 \<le> length wav_data \<and> tmp_write rt wav_data s1 = (Inr p, s2)
        \<and> transcribe rt (files s2) (server_call p) = Inl e \<longrightarrow>
        wfile (do_POST rt req s) = wfile s @
          [\<lparr>status = 200, content_type = ''application/json; charset=utf-8'',
            content = JsonBody [(''success'', PyBool False), (''error'', PyStr (str_exn e))]\<rparr>])
   \<and> (content_length req = Inr n \<and> n \<noteq> 0 \<and> rfile_read rt n s = Inr (wav_data, s1)
        \<and> 44 \<le> length wav_data \<and> tmp_write rt wav_data s1 = (Inr p, s2)
        \<and> transcribe rt (files s2) (server_call p) = Inr (segments, info) \<longrightarrow>
        wfile (do_POST rt req s) = wfile s @
          [\<lparr>status = 200, content_type = ''application/json; charset=utf-8'',
            content = JsonBody
              [(''success'', PyBool True),
               (''text'', PyStr (filter_hallucinations hallucinations (strip (concat segments)))),
               (''language'', PyStr (language info)),
               (''language_probability'', PyFloat (language_probability info)),
               (''duration'', PyFloat (duration info))]\<rparr>])"
proof -
  let ?fail = "\<lambda>msg. wfile s @
          [\<lparr>status = 200, content_type = ''application/json; charset=utf-8'',
            content = JsonBody [(''success'', PyBool False), (''error'', PyStr msg)]\<rparr>]"
  have head: "wfile (do_POST rt req s) = ?fail (str_exn e)" if "content_length req = Inl e" for e
    using that by (simp add: do_POST_def do_POST_try_def send_error_response_def)
  have zero: "wfile (do_POST rt req s) = ?fail (latin1 ''No audio data received'')"
    if "content_length req = Inr 0"
    using that by (simp add: do_POST_def do_POST_try_def send_error_response_def)
  have rd: "wfile (do_POST rt req s) = ?fail (str_exn e)"
    if "content_length req = Inr n" "n \<noteq> 0" "rfile_read rt n s = Inl e" for n e
    using that by (simp add: do_POST_def do_POST_try_def send_error_response_def)
  have short: "wfile (do_POST rt req s) = ?fail (latin1 ''Invalid WAV data (too short)'')"
    if "content_length req = Inr n" "n \<noteq> 0" "rfile_read rt n s = Inr (wav_data, s1)"
      "length wav_data < 44" for n wav_data s1
    using that rfile_read_fields[OF that(3)]
    by (simp add: do_POST_def do_POST_try_def send_error_response_def)
  have wr: "wfile (do_POST rt req s) = ?fail (str_exn e)"
    if "content_length req = Inr n" "n \<noteq> 0" "rfile_read rt n s = Inr (wav_data, s1)"
      "44 \<le> length wav_data" "tmp_write rt wav_data s1 = (Inl e, s2)" for n wav_data s1 e s2
    using that rfile_read_fields[OF that(3)] tmp_write_fields[OF that(5)]
    by (simp add: do_POST_def do_POST_try_def send_error_response_def)
  have raise: "wfile (do_POST rt req s) = ?fail (str_exn e)"
    if "content_length req = Inr n" "n \<noteq> 0" "rfile_read rt n s = Inr (wav_data, s1)"
      "44 \<le> length wav_data" "tmp_write rt wav_data s1 = (Inr p, s2)"
      "transcribe rt (files s2) (server_call p) = Inl e" for n wav_data s1 p s2 e
    using that rfile_read_fields[OF that(3)] tmp_write_fields[OF that(5)]
    by (simp add: do_POST_def do_POST_try_def send_error_response_def model_transcribe_def
        unlink_def)
  have ok: "wfile (do_POST rt req s) = wfile s @
          [\<lparr>status = 200, content_type = ''application/json; charset=utf-8'',
            content = JsonBody
              [(''success'', PyBool True),
               (''text'', PyStr (filter_hallucinations hallucinations (strip (concat segments)))),
               (''language'', PyStr (language info)),
               (''language_probability'', PyFloat (language_probability info)),
               (''duration'', PyFloat (duration info))]\<rparr>]"
    if "content_length req = Inr n" "n \<noteq> 0" "rfile_read rt n s = Inr (wav_data, s1)"
      "44 \<le> length wav_data" "tmp_write rt wav_data s1 = (Inr p, s2)"
      "transcribe rt (files s2) (server_call p) = Inr (segments, info)"
    for n wav_data s1 p s2 segments info
    using that rfile_read_fields[OF that(3)] tmp_write_fields[OF that(5)]
    by (simp add: do_POST_def do_POST_try_def send_json_response_def model_transcribe_def
        unlink_def server_result_def Let_def)
  have shape: "\<exists>d. wfile (do_POST rt req s) = wfile s @
          [\<lparr>status = 200, content_type = ''application/json; charset=utf-8'',
            content = JsonBody d\<rparr>]
        \<and> ((\<exists>text lang prob dur. d =
               [(''success'', PyBool True), (''text'', PyStr text), (''language'', PyStr lang),
                (''language_probability'', PyFloat prob), (''duration'', PyFloat dur)])
           \<or> (\<exists>msg. d = [(''success'', PyBool False), (''error'', PyStr msg)]))"
  proof (cases "content_length req")
    case (Inl e)
    from head[OF this] show ?thesis by blast
  next
    case (Inr n)
    show ?thesis
    proof (cases "n = 0")
      case True
      with Inr zero show ?thesis by blast
    next
      case nz: False
      show ?thesis
      proof (cases "rfile_read rt n s")
        case (Inl e)
        from rd[OF \<open>content_length req = Inr n\<close> nz this] show ?thesis by blast
      next
        case (Inr q)
        obtain wav_data s1 where q: "q = (wav_data, s1)" by (cases q)
        note r = Inr[unfolded q]
        show ?thesis
        proof (cases "length wav_data < 44")
          case True
          from short[OF \<open>content_length req = Inr n\<close> nz r this] show ?thesis by blast
        next
          case False
          then have long: "44 \<le> length wav_data" by simp
          obtain w s2 where t: "tmp_write rt wav_data s1 = (w, s2)"
            by (cases "tmp_write rt wav_data s1")
          show ?thesis
          proof (cases w)
            case (Inl e)
            from wr[OF \<open>content_length req = Inr n\<close> nz r long t[unfolded Inl]]
            show ?thesis by blast
          next
            case (Inr p)
            note t' = t[unfolded Inr]
            show ?thesis
            proof (cases "transcribe rt (files s2) (server_call p)")
              case (Inl e)
              from raise[OF \<open>content_length req = Inr n\<close> nz r long t' this]
              show ?thesis by blast
            next
              case (Inr res)
              obtain segments info where res: "res = (segments, info)" by (cases res)
              from ok[OF \<open>content_length req = Inr n\<close> nz r long t' Inr[unfolded res]]
              show ?thesis by blast
            qed
          qed
        qed
      qed
    qed
  qed
  show ?thesis
  proof (intro conjI impI)
    show "\<exists>d. wfile (do_POST rt req s) = wfile s @
          [\<lparr>status = 200, content_type = ''application/json; charset=utf-8'',
            content = JsonBody d\<rparr>]
        \<and> ((\<exists>text lang prob dur. d =
               [(''success'', PyBool True), (''text'', PyStr text), (''language'', PyStr lang),
                (''language_probability'', PyFloat prob), (''duration'', PyFloat dur)])
           \<or> (\<exists>msg. d = [(''success'', PyBool False), (''error'', PyStr msg)]))"
      by (rule shape)
  qed (erule head zero | (elim conjE, erule rd short wr raise ok, assumption+))+
qed

theorem post_always_200_witness:
  "wfile (do_POST example_runtime (post ''abc'' []) (connection example_wav)) =
     [\<lparr>status = 200, content_type = ''application/json; charset=utf-8'',
       content = JsonBody
         [(''success'', PyBool False),
          (''error'', PyStr (str_exn (invalid_literal ''abc'')))]\<rparr>]
   \<and> wfile (do_POST example_runtime (post ''0'' []) (connection example_wav)) =
     [\<lparr>status = 200, content_type = ''application/json; charset=utf-8'',
       content = JsonBody [(''success'', PyBool False),
                           (''error'', PyStr (latin1 ''No audio data received''))]\<rparr>]
   \<and> wfile (do_POST example_runtime (post ''-2'' []) (connection example_wav)) =
     [\<lparr>status = 200, content_type = ''application/json; charset=utf-8'',
       content = JsonBody [(''success'', PyBool False),
                           (''error'', PyStr (latin1 ''read length must be non-negative or -1''))]\<rparr>]
   \<and> wfile (do_POST example_runtime (post ''43'' []) (connection example_wav)) =
     [\<lparr>status = 200, content_type = ''application/json; charset=utf-8'',
       content = JsonBody [(''success'', PyBool False),
                           (''error'', PyStr (latin1 ''Invalid WAV data (too short)''))]\<rparr>]
   \<and> wfile (do_POST full_disk_runtime (post ''52'' []) (connection example_wav)) =
     [\<lparr>status = 200, content_type = ''application/json; charset=utf-8'',
       content = JsonBody [(''success'', PyBool False),
                           (''error'', PyStr (latin1 ''[Errno 28] No space left on device''))]\<rparr>]
   \<and> wfile (do_POST failing_runtime (post ''52'' []) (connection example_wav)) =
     [\<lparr>status = 200, content_type = ''application/json; charset=utf-8'',
       content = JsonBody [(''success'', PyBool False),
                           (''error'', PyStr (latin1 ''decoder failed''))]\<rparr>]
   \<and> wfile (do_POST example_runtime (post ''52'' []) (connection example_wav)) =
     [\<lparr>status = 200, content_type = ''application/json; charset=utf-8'',
       content = JsonBody
         [(''success'', PyBool True),
          (''text'', PyStr [0x3053, 0x3093, 0x306B, 0x3061, 0x306F]),
          (''language'', PyStr (latin1 ''ja'')),
          (''language_probability'', PyFloat (9 / 10)),
          (''duration'', PyFloat (3 / 2))]\<rparr>]"
proof -
  let ?c = "connection example_wav"
  let ?tmp = "''/tmp/tmpk3a9.wav''"
  have empty: "wfile ?c = []"
    by (simp add: connection_def boot_def)
  have abc: "content_length (post ''abc'' []) = Inl (invalid_literal ''abc'')"
    by (simp add: run_simps)
  have zero: "content_length (post ''0'' []) = Inr 0"
    by (simp add: run_simps)
  have neg: "content_length (post ''-2'' []) = Inr (- 2) \<and> (- 2 :: int) \<noteq> 0
      \<and> rfile_read example_runtime (- 2) ?c =
          Inl (ValueError (latin1 ''read length must be non-negative or -1''))"
    by (simp add: run_simps)
  have short: "content_length (post ''43'' []) = Inr 43 \<and> (43 :: int) \<noteq> 0
      \<and> rfile_read example_runtime 43 ?c =
          Inr (take 43 example_wav, ?c\<lparr>rfile := drop 43 example_wav\<rparr>)
      \<and> length (take 43 example_wav) < 44"
    by (simp add: run_simps example_io example_wav_def)
  have long: "44 \<le> length example_wav" by (simp add: example_wav_length)
  have r_full: "rfile_read full_disk_runtime 52 ?c = Inr (example_wav, ?c\<lparr>rfile := []\<rparr>)"
    by (rule read_52) (simp add: full_disk_io)
  have r_fail: "rfile_read failing_runtime 52 ?c = Inr (example_wav, ?c\<lparr>rfile := []\<rparr>)"
    by (rule read_52) (simp add: failing_io)
  have r_ex: "rfile_read example_runtime 52 ?c = Inr (example_wav, ?c\<lparr>rfile := []\<rparr>)"
    by (rule read_52) (simp add: example_io)
  have w_full: "tmp_write full_disk_runtime example_wav (?c\<lparr>rfile := []\<rparr>) =
      (Inl (Exception ''OSError'' (latin1 ''[Errno 28] No space left on device'')),
       ?c\<lparr>rfile := [], files := (files ?c)(?tmp \<mapsto> [])\<rparr>)"
    by (simp add: full_disk_io)
  have w_fail: "tmp_write failing_runtime example_wav (?c\<lparr>rfile := []\<rparr>) =
      (Inr ?tmp, ?c\<lparr>rfile := [], files := (files ?c)(?tmp \<mapsto> example_wav)\<rparr>)"
    by (simp add: failing_io)
  have w_ex: "tmp_write example_runtime example_wav (?c\<lparr>rfile := []\<rparr>) =
      (Inr ?tmp, ?c\<lparr>rfile := [], files := (files ?c)(?tmp \<mapsto> example_wav)\<rparr>)"
    by (simp add: example_io)
  have heard: "filter_hallucinations hallucinations
      (strip (concat [[32, 0x3053, 0x3093], [0x306B, 0x3061, 0x306F, 32]])) =
      [0x3053, 0x3093, 0x306B, 0x3061, 0x306F]"
    by (simp add: filter_hallucinations_eq hallucinations_def strip_def py_isspace_def
        latin1_def sublist_Cons_right)
  have c1: "content_length (post ''abc'' []) = Inl (invalid_literal ''abc'') \<longrightarrow>
      wfile (do_POST example_runtime (post ''abc'' []) ?c) = wfile ?c @
        [\<lparr>status = 200, content_type = ''application/json; charset=utf-8'',
          content = JsonBody [(''success'', PyBool False),
                              (''error'', PyStr (str_exn (invalid_literal ''abc'')))]\<rparr>]"
    by (rule post_always_200[of example_runtime "post ''abc'' []" ?c "invalid_literal ''abc''", THEN conjunct2, THEN conjunct1])
  have c2: "content_length (post ''0'' []) = Inr 0 \<longrightarrow>
      wfile (do_POST example_runtime (post ''0'' []) ?c) = wfile ?c @
        [\<lparr>status = 200, content_type = ''application/json; charset=utf-8'',
          content = JsonBody [(''success'', PyBool False),
                              (''error'', PyStr (latin1 ''No audio data received''))]\<rparr>]"
    by (rule post_always_200[of example_runtime "post ''0'' []" ?c, THEN conjunct2, THEN conjunct2, THEN conjunct1])
  have c3: "content_length (post ''-2'' []) = Inr (- 2) \<and> (- 2 :: int) \<noteq> 0
      \<and> rfile_read example_runtime (- 2) ?c =
          Inl (ValueError (latin1 ''read length must be non-negative or -1'')) \<longrightarrow>
      wfile (do_POST example_runtime (post ''-2'' []) ?c) = wfile ?c @
        [\<lparr>status = 200, content_type = ''application/json; charset=utf-8'',
          content = JsonBody
            [(''success'', PyBool False),
             (''error'', PyStr (str_exn (ValueError (latin1 ''read length must be non-negative or -1''))))]\<rparr>]"
    by (rule post_always_200[of example_runtime "post ''-2'' []" ?c
        "ValueError (latin1 ''read length must be non-negative or -1'')" "- 2", THEN conjunct2, THEN conjunct2, THEN conjunct2, THEN conjunct1])
  have c4: "content_length (post ''43'' []) = Inr 43 \<and> (43 :: int) \<noteq> 0
      \<and> rfile_read example_runtime 43 ?c =
          Inr (take 43 example_wav, ?c\<lparr>rfile := drop 43 example_wav\<rparr>)
      \<and> length (take 43 example_wav) < 44 \<longrightarrow>
      wfile (do_POST example_runtime (post ''43'' []) ?c) = wfile ?c @
        [\<lparr>status = 200, content_type = ''application/json; charset=utf-8'',
          content = JsonBody [(''success'', PyBool False),
                              (''error'', PyStr (latin1 ''Invalid WAV data (too short)''))]\<rparr>]"
    by (rule post_always_200[of example_runtime "post ''43'' []" ?c _ 43
        "take 43 example_wav" "?c\<lparr>rfile := drop 43 example_wav\<rparr>", THEN conjunct2, THEN conjunct2, THEN conjunct2, THEN conjunct2, THEN conjunct1])
  have c5: "content_length (post ''52'' []) = Inr 52 \<and> (52 :: int) \<noteq> 0
      \<and> rfile_read full_disk_runtime 52 ?c = Inr (example_wav, ?c\<lparr>rfile := []\<rparr>)
      \<and> 44 \<le> length example_wav
      \<and> tmp_write full_disk_runtime example_wav (?c\<lparr>rfile := []\<rparr>) =
          (Inl (Exception ''OSError'' (latin1 ''[Errno 28] No space left on device'')),
           ?c\<lparr>rfile := [], files := (files ?c)(?tmp \<mapsto> [])\<rparr>) \<longrightarrow>
      wfile (do_POST full_disk_runtime (post ''52'' []) ?c) = wfile ?c @
        [\<lparr>status = 200, content_type = ''application/json; charset=utf-8'',
          content = JsonBody
            [(''success'', PyBool False),
             (''error'', PyStr (str_exn (Exception ''OSError''
                                  (latin1 ''[Errno 28] No space left on device''))))]\<rparr>]"
    by (rule post_always_200[of full_disk_runtime "post ''52'' []" ?c
        "Exception ''OSError'' (latin1 ''[Errno 28] No space left on device'')" 52
        example_wav "?c\<lparr>rfile := []\<rparr>"
        "?c\<lparr>rfile := [], files := (files ?c)(?tmp \<mapsto> [])\<rparr>", THEN conjunct2, THEN conjunct2, THEN conjunct2, THEN conjunct2, THEN conjunct2, THEN conjunct1])
  have c6: "content_length (post ''52'' []) = Inr 52 \<and> (52 :: int) \<noteq> 0
      \<and> rfile_read failing_runtime 52 ?c = Inr (example_wav, ?c\<lparr>rfile := []\<rparr>)
      \<and> 44 \<le> length example_wav
      \<and> tmp_write failing_runtime example_wav (?c\<lparr>rfile := []\<rparr>) =
          (Inr ?tmp, ?c\<lparr>rfile := [], files := (files ?c)(?tmp \<mapsto> example_wav)\<rparr>)
      \<and> transcribe failing_runtime
            (files (?c\<lparr>rfile := [], files := (files ?c)(?tmp \<mapsto> example_wav)\<rparr>))
            (server_call ?tmp) = Inl (Exception ''RuntimeError'' (latin1 ''decoder failed'')) \<longrightarrow>
      wfile (do_POST failing_runtime (post ''52'' []) ?c) = wfile ?c @
        [\<lparr>status = 200, content_type = ''application/json; charset=utf-8'',
          content = JsonBody
            [(''success'', PyBool False),
             (''error'', PyStr (str_exn (Exception ''RuntimeError'' (latin1 ''decoder failed''))))]\<rparr>]"
    by (rule post_always_200[of failing_runtime "post ''52'' []" ?c
        "Exception ''RuntimeError'' (latin1 ''decoder failed'')" 52
        example_wav "?c\<lparr>rfile := []\<rparr>"
        "?c\<lparr>rfile := [], files := (files ?c)(?tmp \<mapsto> example_wav)\<rparr>" ?tmp, THEN conjunct2, THEN conjunct2, THEN conjunct2, THEN conjunct2, THEN conjunct2, THEN conjunct2, THEN conjunct1])
  have c7: "content_length (post ''52'' []) = Inr 52 \<and> (52 :: int) \<noteq> 0
      \<and> rfile_read example_runtime 52 ?c = Inr (example_wav, ?c\<lparr>rfile := []\<rparr>)
      \<and> 44 \<le> length example_wav
      \<and> tmp_write example_runtime example_wav (?c\<lparr>rfile := []\<rparr>) =
          (Inr ?tmp, ?c\<lparr>rfile := [], files := (files ?c)(?tmp \<mapsto> example_wav)\<rparr>)
      \<and> transcribe example_runtime
            (files (?c\<lparr>rfile := [], files := (files ?c)(?tmp \<mapsto> example_wav)\<rparr>))
            (server_call ?tmp) =
          Inr ([[32, 0x3053, 0x3093], [0x306B, 0x3061, 0x306F, 32]], example_info) \<longrightarrow>
      wfile (do_POST example_runtime (post ''52'' []) ?c) = wfile ?c @
        [\<lparr>status = 200, content_type = ''application/json; charset=utf-8'',
          content = JsonBody
            [(''success'', PyBool True),
             (''text'', PyStr (filter_hallucinations hallucinations
                (strip (concat [[32, 0x3053, 0x3093], [0x306B, 0x3061, 0x306F, 32]])))),
             (''language'', PyStr (language example_info)),
             (''language_probability'', PyFloat (language_probability example_info)),
             (''duration'', PyFloat (duration example_info))]\<rparr>]"
    by (rule post_always_200[of example_runtime "post ''52'' []" ?c _ 52
        example_wav "?c\<lparr>rfile := []\<rparr>"
        "?c\<lparr>rfile := [], files := (files ?c)(?tmp \<mapsto> example_wav)\<rparr>" ?tmp
        "[[32, 0x3053, 0x3093], [0x306B, 0x3061, 0x306F, 32]]" example_info, THEN conjunct2, THEN conjunct2, THEN conjunct2, THEN conjunct2, THEN conjunct2, THEN conjunct2, THEN conjunct2])
  have nz: "(52 :: int) \<noteq> 0" by simp
  show ?thesis
  proof (intro conjI)
    show "wfile (do_POST example_runtime (post ''abc'' []) ?c) =
        [\<lparr>status = 200, content_type = ''application/json; charset=utf-8'',
          content = JsonBody [(''success'', PyBool False),
                              (''error'', PyStr (str_exn (invalid_literal ''abc'')))]\<rparr>]"
      using c1 abc empty by simp
    show "wfile (do_POST example_runtime (post ''0'' []) ?c) =
        [\<lparr>status = 200, content_type = ''application/json; charset=utf-8'',
          content = JsonBody [(''success'', PyBool False),
                              (''error'', PyStr (latin1 ''No audio data received''))]\<rparr>]"
      using c2 zero empty by simp
    show "wfile (do_POST example_runtime (post ''-2'' []) ?c) =
        [\<lparr>status = 200, content_type = ''application/json; charset=utf-8'',
          content = JsonBody [(''success'', PyBool False),
                              (''error'', PyStr (latin1 ''read length must be non-negative or -1''))]\<rparr>]"
      using c3 neg empty by simp
    show "wfile (do_POST example_runtime (post ''43'' []) ?c) =
        [\<lparr>status = 200, content_type = ''application/json; charset=utf-8'',
          content = JsonBody [(''success'', PyBool False),
                              (''error'', PyStr (latin1 ''Invalid WAV data (too short)''))]\<rparr>]"
      using c4 short empty by simp
    show "wfile (do_POST full_disk_runtime (post ''52'' []) ?c) =
        [\<lparr>status = 200, content_type = ''application/json; charset=utf-8'',
          content = JsonBody [(''success'', PyBool False),
                              (''error'', PyStr (latin1 ''[Errno 28] No space left on device''))]\<rparr>]"
      using c5 post_52[of "[]"] nz r_full long w_full empty by simp
    show "wfile (do_POST failing_runtime (post ''52'' []) ?c) =
        [\<lparr>status = 200, content_type = ''application/json; charset=utf-8'',
          content = JsonBody [(''success'', PyBool False),
                              (''error'', PyStr (latin1 ''decoder failed''))]\<rparr>]"
      using c6 post_52[of "[]"] nz r_fail long w_fail failing_transcribes empty by simp
    show "wfile (do_POST example_runtime (post ''52'' []) ?c) =
        [\<lparr>status = 200, content_type = ''application/json; charset=utf-8'',
          content = JsonBody
            [(''success'', PyBool True),
             (''text'', PyStr [0x3053, 0x3093, 0x306B, 0x3061, 0x306F]),
             (''language'', PyStr (latin1 ''ja'')),
             (''language_probability'', PyFloat (9 / 10)),
             (''duration'', PyFloat (3 / 2))]\<rparr>]"
      using c7 post_52[of "[]"] nz r_ex long w_ex example_transcribes empty heard
      by (simp add: example_info_def)
  qed
qed

subsection \<open>The inference call of the command-line script\<close>

text \<open>Loading the model touches neither the disk nor the record of calls; once the model
  is loaded, the \<open>wave\<close> module has read a frame rate and the temporary file has been
  written, \<open>transcribe_wav\<close> calls the library and removes the file again.\<close>

lemma load_model_fields:
  assumes "load_model rt s = (r, s1)"
  shows "files s1 = files s" "calls s1 = calls s" "stdout s1 = stdout s" "wfile s1 = wfile s"
  using assms
  by (auto simp: load_model_def stderr_write_def Let_def split: if_splits option.splits)

lemma tmp_write_succeeds:
  assumes "tmp_create_error rt = None" and "tmp_write_error rt d = None"
  shows "tmp_write rt d s = (Inr (tmp_name rt), s\<lparr>files := (files s)(tmp_name rt \<mapsto> d)\<rparr>)"
  using assms by (simp add: tmp_write_def)

lemma transcribe_wav_inference:
  assumes "load_model rt s = (None, s1)" and "wave_framerate rt wav_bytes = Inr sample_rate"
    and "tmp_create_error rt = None" and "tmp_write_error rt wav_bytes = None"
  shows "calls (snd (transcribe_wav rt wav_bytes s)) = calls s @ [cli_call (tmp_name rt)]"
    and "files (snd (transcribe_wav rt wav_bytes s)) = (files s)(tmp_name rt := None)"
    and "fst (transcribe_wav rt wav_bytes s) =
           (case transcribe rt ((files s)(tmp_name rt \<mapsto> wav_bytes)) (cli_call (tmp_name rt)) of
              Inl e \<Rightarrow> Inl e
            | Inr (segments, info) \<Rightarrow> Inr (cli_result (concat segments) info))"
  using assms(1,2) load_model_fields[OF assms(1)]
  by (auto simp: transcribe_wav_def Let_def model_transcribe_def tmp_write_succeeds[OF assms(3,4)]
      unlink_def stderr_write_def split: sum.splits prod.splits)

lemma load_example:
  "load_model example_runtime (boot Map.empty) =
     (None, snd (load_model example_runtime (boot Map.empty)))"
  by (simp add: load_model_def example_runtime_def boot_def Let_def)


lemma example_disk:
  "tmp_create_error example_runtime = None" "tmp_write_error example_runtime d = None"
  "tmp_create_error failing_runtime = None" "tmp_write_error failing_runtime d = None"
  by (simp_all add: failing_runtime_def example_runtime_def)

subsection \<open>Temporary files\<close>




subsection \<open>Requests without a body\<close>



subsection \<open>A filtered transcript is still a success\<close>

text \<open>
  Claim C10. When a listed phrase occurs in the transcript and the filter empties it, the
  response still has \<open>success = true\<close>, an empty \<open>text\<close>, and the \<open>language\<close>,
  \<open>language_probability\<close> and \<open>duration\<close> the library reported; it is the very response
  given when the library returns no segment at all with the same metadata.
\<close>

theorem filtered_transcript_reports_success:
  assumes "content_length req = Inr n" and "n \<noteq> 0"
    and "rfile_read rt n s = Inr (wav_data, s1)" and "44 \<le> length wav_data"
    and "tmp_write rt wav_data s1 = (Inr (tmp_name rt), s2)"
    and "transcribe rt ((files s)(tmp_name rt \<mapsto> wav_data)) (server_call (tmp_name rt))
           = Inr (segments, info)"
    and "h \<in> set hallucinations" and "sublist h (strip (concat segments))"
    and "rfile_read rt' n s = Inr (wav_data, s1)"
    and "tmp_write rt' wav_data s1 = (Inr (tmp_name rt'), s2')"
    and "transcribe rt' ((files s)(tmp_name rt' \<mapsto> wav_data)) (server_call (tmp_name rt'))
           = Inr ([], info)"
  shows "wfile (do_POST rt req s) = wfile s @
           [\<lparr>status = 200, content_type = ''application/json; charset=utf-8'',
             content = JsonBody
               [(''success'', PyBool True),
                (''text'', PyStr []),
                (''language'', PyStr (language info)),
                (''language_probability'', PyFloat (language_probability info)),
                (''duration'', PyFloat (duration info))]\<rparr>]
       \<and> wfile (do_POST rt' req s) = wfile (do_POST rt req s)"
proof -
  have hit: "\<exists>h\<in>set hallucinations. sublist h (strip (concat segments))"
    using assms(7,8) by blast
  have silent: "filter_hallucinations hallucinations (strip []) = []"
    by (simp add: filter_hallucinations_eq strip_def)
  have heard: "filter_hallucinations hallucinations (strip (concat segments)) = []"
    using hit by (simp add: filter_hallucinations_eq)
  from assms(6,11) rfile_read_fields[OF assms(3)] show ?thesis
    by (simp add: do_POST_def do_POST_try_inference[OF assms(1-5)]
        do_POST_try_inference[OF assms(1,2,9,4,10)] silent heard
        send_json_response_def server_result_def)
qed

theorem filtered_transcript_reports_success_witness:
  "wfile (do_POST hallucinating_runtime (post ''44'' []) (connection (replicate 44 0))) =
     [\<lparr>status = 200, content_type = ''application/json; charset=utf-8'',
       content = JsonBody
         [(''success'', PyBool True),
          (''text'', PyStr []),
          (''language'', PyStr (latin1 ''ja'')),
          (''language_probability'', PyFloat (9 / 10)),
          (''duration'', PyFloat (3 / 2))]\<rparr>]
   \<and> wfile (do_POST silent_runtime (post ''44'' []) (connection (replicate 44 0))) =
       wfile (do_POST hallucinating_runtime (post ''44'' []) (connection (replicate 44 0)))"
proof -
  let ?c = "connection (replicate 44 0)"
  have len: "44 \<le> length (replicate 44 (0 :: 8 word))" by simp
  have nz: "(44 :: int) \<noteq> 0" by simp
  have listed: "[0x9AD8, 0x8A55, 0x4FA1] \<in> set hallucinations"
    by (simp add: hallucinations_def)
  have occurs: "sublist [0x9AD8, 0x8A55, 0x4FA1]
      (strip (concat [latin1 ''ok '', [0x9AD8, 0x8A55, 0x4FA1], latin1 ''!'']))"
    by (simp add: latin1_def strip_def py_isspace_def sublist_Cons_right)
  have rh: "rfile_read hallucinating_runtime 44 ?c = Inr (replicate 44 0, ?c\<lparr>rfile := []\<rparr>)"
    by (rule read_44) (simp add: hallucinating_io)
  have rs: "rfile_read silent_runtime 44 ?c = Inr (replicate 44 0, ?c\<lparr>rfile := []\<rparr>)"
    by (rule read_44) (simp add: silent_io)
  have wh: "tmp_write hallucinating_runtime (replicate 44 0) (?c\<lparr>rfile := []\<rparr>) =
      (Inr (tmp_name hallucinating_runtime),
       ?c\<lparr>rfile := [], files := (files ?c)(''/tmp/tmpk3a9.wav'' \<mapsto> replicate 44 0)\<rparr>)"
    by (simp add: hallucinating_io)
  have ws: "tmp_write silent_runtime (replicate 44 0) (?c\<lparr>rfile := []\<rparr>) =
      (Inr (tmp_name silent_runtime),
       ?c\<lparr>rfile := [], files := (files ?c)(''/tmp/tmpk3a9.wav'' \<mapsto> replicate 44 0)\<rparr>)"
    by (simp add: silent_io)
  show ?thesis
    using filtered_transcript_reports_success[OF post_44 nz rh len wh
        hallucinating_transcribes listed occurs rs ws silent_transcribes]
    by (simp add: connection_def boot_def example_info_def)
qed

subsection \<open>Decoding parameters\<close>

text \<open>
  Claim C6, as amended. Every transcription call of the server's POST handler passes the
  library the temporary file with language \<open>ja\<close>, beam size 5, best-of 5, the
  voice-activity filter switched on with a minimum silence of 1000 ms and a speech
  padding of 400 ms, word timestamps and conditioning on previous text switched off, the
  fixed priming prompt, and a no-speech threshold of 0.6. Every transcription call of the
  script's \<open>transcribe_wav\<close> passes the temporary file with language \<open>ja\<close>, beam size 5
  and the voice-activity filter switched on with a minimum silence of 500 ms, and nothing
  else.
\<close>

theorem inference_call_parameters:
  "(content_length req = Inr n \<and> n \<noteq> 0 \<and> rfile_read rt n s = Inr (wav_data, s1)
      \<and> 44 \<le> length wav_data \<and> tmp_write rt wav_data s1 = (Inr (tmp_name rt), s2) \<longrightarrow>
      calls (do_POST rt req s) = calls s @
        [\<lparr>audio = tmp_name rt,
          kwargs =
            [(''language'', PyStr (latin1 ''ja'')),
             (''beam_size'', PyInt 5),
             (''best_of'', PyInt 5),
             (''vad_filter'', PyBool True),
             (''vad_parameters'',
                PyDict [(''min_silence_duration_ms'', PyInt 1000), (''speech_pad_ms'', PyInt 400)]),
             (''word_timestamps'', PyBool False),
             (''condition_on_previous_text'', PyBool False),
             (''initial_prompt'', PyStr initial_prompt),
             (''no_speech_threshold'', PyFloat (6 / 10))]\<rparr>])
   \<and> (load_model rt s = (None, s3) \<and> wave_framerate rt wav_bytes = Inr sample_rate
      \<and> tmp_create_error rt = None \<and> tmp_write_error rt wav_bytes = None \<longrightarrow>
      calls (snd (transcribe_wav rt wav_bytes s)) = calls s @
        [\<lparr>audio = tmp_name rt,
          kwargs =
            [(''language'', PyStr (latin1 ''ja'')),
             (''beam_size'', PyInt 5),
             (''vad_filter'', PyBool True),
             (''vad_parameters'', PyDict [(''min_silence_duration_ms'', PyInt 500)])]\<rparr>])"
proof -
  have srv: "calls (do_POST rt req s) = calls s @ [server_call (tmp_name rt)]"
    if h: "content_length req = Inr n" "n \<noteq> 0" "rfile_read rt n s = Inr (wav_data, s1)"
      "44 \<le> length wav_data" "tmp_write rt wav_data s1 = (Inr (tmp_name rt), s2)"
    by (cases "transcribe rt ((files s)(tmp_name rt \<mapsto> wav_data)) (server_call (tmp_name rt))")
      (auto simp: do_POST_def do_POST_try_inference[OF h] send_error_response_def
        send_json_response_def)
  have cli: "calls (snd (transcribe_wav rt wav_bytes s)) = calls s @ [cli_call (tmp_name rt)]"
    if "load_model rt s = (None, s3)" "wave_framerate rt wav_bytes = Inr sample_rate"
      "tmp_create_error rt = None" "tmp_write_error rt wav_bytes = None"
    using transcribe_wav_inference(1)[OF that] by simp
  from srv cli show ?thesis
    by (auto simp: server_call_def cli_call_def)
qed

theorem inference_call_parameters_witness:
  "calls (do_POST example_runtime (post ''52'' []) (connection example_wav)) =
     [server_call ''/tmp/tmpk3a9.wav'']
   \<and> calls (snd (transcribe_wav example_runtime example_wav (boot Map.empty))) =
     [cli_call ''/tmp/tmpk3a9.wav'']"
proof -
  let ?c = "connection example_wav"
  have len: "44 \<le> length example_wav" by (simp add: example_wav_length)
  have nz: "(52 :: int) \<noteq> 0" by simp
  have r_ex: "rfile_read example_runtime 52 ?c = Inr (example_wav, ?c\<lparr>rfile := []\<rparr>)"
    by (rule read_52) (simp add: example_io)
  have w_ex: "tmp_write example_runtime example_wav (?c\<lparr>rfile := []\<rparr>) =
      (Inr (tmp_name example_runtime),
       ?c\<lparr>rfile := [], files := (files ?c)(''/tmp/tmpk3a9.wav'' \<mapsto> example_wav)\<rparr>)"
    by (simp add: example_io)
  have f_ex: "wave_framerate example_runtime example_wav = Inr 16000"
    by (simp add: example_io example_wav_framerate)
  show ?thesis
    using inference_call_parameters[where rt = example_runtime and req = "post ''52'' []"
        and n = 52 and s = ?c and wav_data = example_wav and ?s1.0 = "?c\<lparr>rfile := []\<rparr>"
        and ?s2.0 = "?c\<lparr>rfile := [], files := (files ?c)(''/tmp/tmpk3a9.wav'' \<mapsto> example_wav)\<rparr>"]
      inference_call_parameters[where rt = example_runtime and s = "boot Map.empty"
        and ?s3.0 = "snd (load_model example_runtime (boot Map.empty))"
        and wav_bytes = example_wav and sample_rate = 16000]
      post_52 nz r_ex len w_ex load_example f_ex example_disk(1,2)
    by (simp add: example_io(2) boot_def connection_def server_call_def cli_call_def)
qed

text \<open>The claim as first stated fails for the command-line script: run on a well-formed
  recording, its one call of the library carries no priming prompt, no no-speech
  threshold and no padding threshold.\<close>

theorem inference_call_parameters_counterexample:
  "riff_framerate example_wav = Inr 16000
   \<and> calls (transcribe_main example_runtime example_wav (boot Map.empty)) =
       [cli_call ''/tmp/tmpk3a9.wav'']
   \<and> map_of (kwargs (cli_call ''/tmp/tmpk3a9.wav'')) ''initial_prompt'' = None
   \<and> map_of (kwargs (cli_call ''/tmp/tmpk3a9.wav'')) ''no_speech_threshold'' = None
   \<and> map_of (kwargs (cli_call ''/tmp/tmpk3a9.wav'')) ''vad_parameters'' =
       Some (PyDict [(''min_silence_duration_ms'', PyInt 500)])"
  by (simp add: transcribe_main_def transcribe_wav_def load_model_def model_transcribe_def
      example_io unlink_def stderr_write_def cli_call_def example_wav_framerate
      example_wav_length example_runtime_def boot_def Let_def tmp_write_def)

subsection \<open>The resolved device and precision\<close>

text \<open>No handler assigns the two globals that start-up resolves, so they keep their
  start-up values however many requests have been served.\<close>

lemma do_POST_try_globals:
  "actual_device (snd (do_POST_try rt req s)) = actual_device s
   \<and> actual_compute_type (snd (do_POST_try rt req s)) = actual_compute_type s"
proof (cases "content_length req")
  case (Inl e)
  then show ?thesis by (simp add: do_POST_try_def)
next
  case (Inr n)
  show ?thesis
  proof (cases "rfile_read rt n s")
    case (Inl e)
    with \<open>content_length req = Inr n\<close> show ?thesis
      by (simp add: do_POST_try_def send_error_response_def)
  next
    case (Inr q)
    obtain wav_data s1 where q: "q = (wav_data, s1)" by (cases q)
    from rfile_read_cases[OF Inr[unfolded q]]
    have s1: "actual_device s1 = actual_device s" "actual_compute_type s1 = actual_compute_type s"
      by (auto split: if_splits)
    obtain w s2 where t: "tmp_write rt wav_data s1 = (w, s2)"
      by (cases "tmp_write rt wav_data s1")
    from \<open>content_length req = Inr n\<close> Inr q t s1 tmp_write_fields(4,5)[OF t] show ?thesis
      by (auto simp: do_POST_try_def model_transcribe_def unlink_def send_error_response_def
          send_json_response_def Let_def split: sum.splits prod.splits)
  qed
qed

lemma handle_one_request_globals:
  "actual_device (handle_one_request rt req s) = actual_device s
   \<and> actual_compute_type (handle_one_request rt req s) = actual_compute_type s"
  using do_POST_try_globals[of rt req "s\<lparr>rfile := body req\<rparr>"]
  by (auto simp: handle_one_request_def do_POST_def do_GET_def send_error_def
      send_error_response_def send_json_response_def Let_def split: prod.splits option.splits)

lemma serve_forever_globals:
  "actual_device (serve_forever rt reqs s) = actual_device s
   \<and> actual_compute_type (serve_forever rt reqs s) = actual_compute_type s"
  by (induction reqs arbitrary: s) (simp_all add: handle_one_request_globals)

lemma get_device_fst: "fst (get_device rt s) = fst (get_device rt s')"
  by (simp add: get_device_def split: torch.splits option.splits)

lemma startup_globals:
  "actual_device (startup rt s) = fst (get_device rt s)
   \<and> actual_compute_type (startup rt s) = get_compute_type rt (fst (get_device rt s))"
  using get_device_fst[of rt "print (latin1 ''[whisper-server] Loading model: '' @ MODEL_SIZE rt) s" s]
  by (auto simp: startup_def Let_def print_def split: prod.splits option.splits)

lemma example_config:
  "DEVICE example_runtime = latin1 ''cuda''" "MODEL_SIZE example_runtime = latin1 ''small''"
  "torch example_runtime = TorchNotInstalled"
  by (simp_all add: DEVICE_def MODEL_SIZE_def example_runtime_def)

lemma unloadable_raises:
  "WhisperModel unloadable_runtime m d c = Some (Exception ''RuntimeError'' (latin1 ''out of memory''))"
  by (simp add: unloadable_runtime_def example_runtime_def)

text \<open>
  Claim C5. A GET request to \<open>/health\<close>, after any number of earlier requests, is
  answered with status 200 and the JSON body
  \<open>{"status": "ok", "model": ..., "device": ..., "compute_type": ...}\<close> whose \<open>device\<close> and
  \<open>compute_type\<close> are the values resolved at start-up by \<open>get_device\<close> and
  \<open>get_compute_type\<close>; when CUDA was requested and \<open>torch\<close> is not installed or sees no
  CUDA device, these are \<open>cpu\<close> and \<open>int8\<close>, whatever was configured.
\<close>

theorem health_reports_resolved_device:
  assumes "path req = ''/health''" and "s = serve_forever rt reqs (startup rt s0)"
  shows "wfile (do_GET rt req s) = wfile s @
           [\<lparr>status = 200, content_type = ''application/json; charset=utf-8'',
             content = JsonBody
               [(''status'', PyStr (latin1 ''ok'')),
                (''model'', PyStr (MODEL_SIZE rt)),
                (''device'', PyStr (fst (get_device rt s0))),
                (''compute_type'', PyStr (get_compute_type rt (fst (get_device rt s0))))]\<rparr>]
       \<and> (DEVICE rt = latin1 ''cuda''
            \<and> (torch rt = TorchNotInstalled \<or> torch rt = TorchInstalled None) \<longrightarrow>
            fst (get_device rt s0) = latin1 ''cpu''
            \<and> get_compute_type rt (fst (get_device rt s0)) = latin1 ''int8'')"
proof -
  have "actual_device s = fst (get_device rt s0)"
    and "actual_compute_type s = get_compute_type rt (fst (get_device rt s0))"
    using assms(2) serve_forever_globals[of rt reqs "startup rt s0"] startup_globals[of rt s0]
    by simp_all
  with assms(1) have response: "wfile (do_GET rt req s) = wfile s @
           [\<lparr>status = 200, content_type = ''application/json; charset=utf-8'',
             content = JsonBody
               [(''status'', PyStr (latin1 ''ok'')),
                (''model'', PyStr (MODEL_SIZE rt)),
                (''device'', PyStr (fst (get_device rt s0))),
                (''compute_type'', PyStr (get_compute_type rt (fst (get_device rt s0))))]\<rparr>]"
    by (simp add: do_GET_def send_json_response_def)
  have fallback: "DEVICE rt = latin1 ''cuda''
            \<and> (torch rt = TorchNotInstalled \<or> torch rt = TorchInstalled None) \<longrightarrow>
            fst (get_device rt s0) = latin1 ''cpu''
            \<and> get_compute_type rt (fst (get_device rt s0)) = latin1 ''int8''"
    by (auto simp: get_device_def get_compute_type_def)
  from response fallback show ?thesis by (rule conjI)
qed

theorem health_reports_resolved_device_witness:
  "last (wfile (do_GET example_runtime
           \<lparr>command = ''GET'', path = ''/health'', headers = Map.empty, body = []\<rparr>
           (serve_forever example_runtime [post ''44'' (replicate 44 0)]
              (startup example_runtime (boot Map.empty))))) =
     \<lparr>status = 200, content_type = ''application/json; charset=utf-8'',
      content = JsonBody
        [(''status'', PyStr (latin1 ''ok'')),
         (''model'', PyStr (latin1 ''small'')),
         (''device'', PyStr (latin1 ''cpu'')),
         (''compute_type'', PyStr (latin1 ''int8''))]\<rparr>"
proof -
  have route: "path \<lparr>command = ''GET'', path = ''/health'', headers = Map.empty, body = []\<rparr>
                 = ''/health''"
    by simp
  show ?thesis
    using health_reports_resolved_device[OF route refl, of example_runtime
        "[post ''44'' (replicate 44 0)]" "boot Map.empty"] example_config
    by (simp add: get_compute_type_def)
qed

subsection \<open>Requests outside the two routes\<close>

text \<open>
  Claim C7, as amended. Every GET request whose path is not exactly \<open>/health\<close> receives
  an HTTP 404 response. A request whose method is neither GET nor POST finds no handler
  method in \<open>TranscribeHandler\<close> and is answered with 501 by the base class.
\<close>

theorem unrouted_requests:
  "(command req = ''GET'' \<and> path req \<noteq> ''/health'' \<longrightarrow>
      wfile (handle_one_request rt req s) = wfile s @
        [\<lparr>status = 404, content_type = ''text/html;charset=utf-8'', content = ErrorPage\<rparr>])
   \<and> (command req \<noteq> ''GET'' \<and> command req \<noteq> ''POST'' \<longrightarrow>
      wfile (handle_one_request rt req s) = wfile s @
        [\<lparr>status = 501, content_type = ''text/html;charset=utf-8'', content = ErrorPage\<rparr>])"
  by (simp add: handle_one_request_def do_GET_def send_error_def)

theorem unrouted_requests_witness:
  "map status (wfile (handle_one_request example_runtime
       \<lparr>command = ''GET'', path = ''/healthz'', headers = Map.empty, body = []\<rparr>
       (boot Map.empty))) = [404]
   \<and> map status (wfile (handle_one_request example_runtime
       \<lparr>command = ''DELETE'', path = ''/health'', headers = Map.empty, body = []\<rparr>
       (boot Map.empty))) = [501]"
  using unrouted_requests[of "\<lparr>command = ''GET'', path = ''/healthz'', headers = Map.empty, body = []\<rparr>"
      example_runtime "boot Map.empty"]
    unrouted_requests[of "\<lparr>command = ''DELETE'', path = ''/health'', headers = Map.empty, body = []\<rparr>"
      example_runtime "boot Map.empty"]
  by (simp add: boot_def)

text \<open>The claim as first stated fails for a method other than GET and POST: a PUT request
  is answered with 501, not 404.\<close>

theorem unrouted_requests_counterexample:
  "command \<lparr>command = ''PUT'', path = ''/'', headers = Map.empty, body = []\<rparr> \<noteq> ''POST''
   \<and> command \<lparr>command = ''PUT'', path = ''/'', headers = Map.empty, body = []\<rparr> \<noteq> ''GET''
   \<and> map status (wfile (handle_one_request example_runtime
         \<lparr>command = ''PUT'', path = ''/'', headers = Map.empty, body = []\<rparr>
         (boot Map.empty))) = [501]"
  by (simp add: handle_one_request_def send_error_def boot_def)

subsection \<open>Failure to load the model\<close>

text \<open>
  Claim C8, as amended. If constructing the model at server start-up raises an exception,
  the failure is printed on standard output (the last line printed is
  \<open>[whisper-server] Failed to load model: \<close> followed by the exception's text), nothing
  is written to standard error, the process exits with status 1, and no request is ever
  answered.
\<close>

theorem model_load_failure_exits:
  assumes "WhisperModel rt (MODEL_SIZE rt) (fst (get_device rt (boot fs)))
             (get_compute_type rt (fst (get_device rt (boot fs)))) = Some e"
  shows "exit_status (startup rt (boot fs)) = Some 1
       \<and> last (stdout (startup rt (boot fs))) =
           Text (latin1 ''[whisper-server] Failed to load model: '' @ str_exn e)
       \<and> stderr (startup rt (boot fs)) = []
       \<and> exit_status (whisper_server rt fs reqs) = Some 1
       \<and> wfile (whisper_server rt fs reqs) = []"
proof -
  let ?s1 = "print (latin1 ''[whisper-server] Loading model: '' @ MODEL_SIZE rt) (boot fs)"
  have dev: "fst (get_device rt ?s1) = fst (get_device rt (boot fs))"
    by (rule get_device_fst)
  have quiet: "stderr (snd (get_device rt ?s1)) = [] \<and> wfile (snd (get_device rt ?s1)) = []"
    by (simp add: get_device_def print_def boot_def split: torch.splits option.splits)
  have st: "exit_status (startup rt (boot fs)) = Some 1
       \<and> last (stdout (startup rt (boot fs))) =
           Text (latin1 ''[whisper-server] Failed to load model: '' @ str_exn e)
       \<and> stderr (startup rt (boot fs)) = []
       \<and> wfile (startup rt (boot fs)) = []"
    using assms dev quiet
    by (auto simp: startup_def Let_def print_def split: prod.splits)
  then show ?thesis
    by (simp add: whisper_server_def Let_def)
qed

theorem model_load_failure_exits_witness:
  "exit_status (startup unloadable_runtime (boot Map.empty)) = Some 1
   \<and> last (stdout (startup unloadable_runtime (boot Map.empty))) =
       Text (latin1 ''[whisper-server] Failed to load model: '' @ latin1 ''out of memory'')
   \<and> wfile (whisper_server unloadable_runtime Map.empty [post ''44'' (replicate 44 0)]) = []"
  using model_load_failure_exits[OF unloadable_raises, of Map.empty "[post ''44'' (replicate 44 0)]"]
  by simp

text \<open>The claim as first stated fails on the stream: with a model that cannot be loaded
  the process exits with status 1 having written its report to standard output and
  nothing to standard error.\<close>

theorem model_load_failure_counterexample:
  "WhisperModel unloadable_runtime (MODEL_SIZE unloadable_runtime) (latin1 ''cpu'') (latin1 ''int8'')
     = Some (Exception ''RuntimeError'' (latin1 ''out of memory''))
   \<and> exit_status (startup unloadable_runtime (boot Map.empty)) = Some 1
   \<and> stderr (startup unloadable_runtime (boot Map.empty)) = []
   \<and> stdout (startup unloadable_runtime (boot Map.empty)) =
       [Text (latin1 ''[whisper-server] Loading model: small''),
        Text (latin1 ''[whisper-server] torch not installed, falling back to CPU''),
        Text (latin1 ''[whisper-server] Device: cpu, Compute type: int8''),
        Text (latin1 ''[whisper-server] Failed to load model: out of memory'')]"
  by (simp add: startup_def get_device_def get_compute_type_def DEVICE_def MODEL_SIZE_def
      COMPUTE_TYPE_def print_def boot_def unloadable_runtime_def example_runtime_def latin1_def
      Let_def)

end
